theory Spec2Isabelle
  imports Main "HOL-Library.Multiset" "HOL-Library.AList"
begin

chapter \<open>The model\<close>

section \<open>Deployment stage (interfaces/stage.interface.ts)\<close>

text \<open>The members of the enum \<^verbatim>\<open>Stage\<close>, written \<open>Stage_DEV\<close> for \<^verbatim>\<open>Stage.DEV\<close>.\<close>

datatype Stage = Stage_BOOTSTRAP | Stage_DEV | Stage_ENTW | Stage_SYST | Stage_INTG | Stage_GATE | Stage_PROD | Stage_MOCK

section \<open>JavaScript values\<close>

text \<open>
  A value of type \<^verbatim>\<open>any\<close> that came out of \<^verbatim>\<open>JSON.parse\<close>: a response body, an entry
  of browser storage. Numbers are the integers; an object is the list of its properties
  in insertion order.
\<close>

datatype json =
    JNull
  | JBool bool
  | JNum int
  | JStr string
  | JArr "json list"
  | JObj "(string \<times> json) list"

text \<open>JavaScript's \<^verbatim>\<open>ToBoolean\<close>: what \<^verbatim>\<open>if (v)\<close>, \<^verbatim>\<open>v && e\<close> and \<^verbatim>\<open>v || e\<close> test.\<close>

fun truthy :: "json \<Rightarrow> bool" where
  "truthy JNull = False"
| "truthy (JBool b) = b"
| "truthy (JNum n) = (n \<noteq> 0)"
| "truthy (JStr s) = (s \<noteq> [])"
| "truthy (JArr xs) = True"
| "truthy (JObj kvs) = True"

text \<open>
  Reading the property \<open>k\<close> of a value, for the property names the library reads
  (none of them is a built-in property of a string or an array): \<open>None\<close> is
  \<^verbatim>\<open>undefined\<close>.
\<close>

fun getProp :: "json \<Rightarrow> string \<Rightarrow> json option" where
  "getProp (JObj kvs) k = map_of kvs k"
| "getProp v k = None"

text \<open>
  An optional property of an object literal: not there, there with the value
  \<^verbatim>\<open>undefined\<close>, or there with a value. Spreading \<^verbatim>\<open>{...a, ...b}\<close> takes the property
  from \<open>b\<close> whenever \<open>b\<close> has it, also with the value \<^verbatim>\<open>undefined\<close>; reading a property
  gives \<^verbatim>\<open>undefined\<close> in the first two cases.
\<close>

datatype 'a property = Absent | Undefined | Value 'a

definition spread :: "'a property \<Rightarrow> 'a property \<Rightarrow> 'a property" where
  "spread a b = (case b of Absent \<Rightarrow> a | _ \<Rightarrow> b)"

definition readProperty :: "'a property \<Rightarrow> 'a property" where
  "readProperty p = (case p of Absent \<Rightarrow> Undefined | _ \<Rightarrow> p)"

text \<open>\<^verbatim>\<open>p ?? d\<close> on a property that was read.\<close>

definition nullish :: "'a property \<Rightarrow> 'a \<Rightarrow> 'a" where
  "nullish p d = (case p of Value v \<Rightarrow> v | _ \<Rightarrow> d)"

text \<open>\<^verbatim>\<open>String.prototype.startsWith\<close> and \<^verbatim>\<open>String.prototype.includes\<close>.\<close>

definition startsWith :: "string \<Rightarrow> string \<Rightarrow> bool" where
  "startsWith s p = (take (length p) s = p)"

fun String_includes :: "string \<Rightarrow> string \<Rightarrow> bool" where
  "String_includes [] sub = (sub = [])"
| "String_includes (c # cs) sub = (startsWith (c # cs) sub \<or> String_includes cs sub)"

text \<open>The decimal digits of a number, as a template literal prints \<^verbatim>\<open>Date.now()\<close>.\<close>

fun digits :: "nat \<Rightarrow> string" where
  "digits n = (if n < 10 then [char_of (48 + n)] else digits (n div 10) @ [char_of (48 + n mod 10)])"

definition decimal :: "int \<Rightarrow> string" where
  "decimal i = (if i < 0 then CHR ''-'' # digits (nat (- i)) else digits (nat i))"

text \<open>The errors that the modelled code throws or passes on.\<close>

datatype js_error =
    TimeoutError
  | HttpErrorResponse int "string option" json string
  | Error string
  | TypeError
  | DOMException string

section \<open>Role resolver (services/roles.service.ts)\<close>

text \<open>
  \<^verbatim>\<open>InternalRole\<close> of interfaces/roles.interface.ts.
\<close>

record InternalRole =
  name :: string
  displayName :: string
  description :: string
  keycloakRoles :: "string list"

text \<open>
  The observable \<^verbatim>\<open>internalRolesCache$\<close> (a \<^verbatim>\<open>shareReplay(1)\<close> stream): its fetch is
  still running, it replays a value, or it completed without a value.
\<close>

datatype roles_stream = InFlight | Replay "InternalRole list" | Completed

text \<open>
  The fields of \<^verbatim>\<open>RolesService\<close> that its methods read or write. \<^verbatim>\<open>stage\<close> is the
  stage of the injected \<^verbatim>\<open>EnvironmentService\<close>; \<^verbatim>\<open>ADMIN_ROLE\<close> and \<^verbatim>\<open>SYSTEM_ROLE\<close> are the
  statics the constructor fills from \<^verbatim>\<open>ROLES_CONFIG\<close>. \<^verbatim>\<open>roleMappingCache\<close> is the
  \<^verbatim>\<open>Map<string, string[]>\<close> from Keycloak role to internal role names. The
  session-storage entry \<^verbatim>\<open>user_roles_cache\<close> is kept at the type the service reads it at
  (\<^verbatim>\<open>getSession<InternalRole[]>\<close>: a role list or \<^verbatim>\<open>null\<close>); \<^verbatim>\<open>sessionWritable\<close> says
  whether \<^verbatim>\<open>setSession\<close> succeeds.
\<close>

record RolesService =
  stage :: Stage
  ADMIN_ROLE :: string
  SYSTEM_ROLE :: string
  initialized :: bool
  isLoadingMappings :: bool
  internalRolesCache :: "roles_stream option"
  roleMappingCache :: "string \<rightharpoonup> string list"
  sessionRoles :: "InternalRole list option"
  sessionWritable :: bool

text \<open>\<^verbatim>\<open>EnvironmentService.isMock()\<close>.\<close>

definition isMock :: "RolesService \<Rightarrow> bool" where
  "isMock s = (stage s = Stage_MOCK)"

text \<open>
  \<^verbatim>\<open>Set.prototype.add\<close> on an insertion-ordered \<^verbatim>\<open>Set<string>\<close>, kept as the list
  \<^verbatim>\<open>Array.from\<close> gives: a new element goes last, a known one changes nothing.
\<close>

definition Set_add :: "'a list \<Rightarrow> 'a \<Rightarrow> 'a list" where
  "Set_add internalRoles role = (if role \<in> set internalRoles then internalRoles else internalRoles @ [role])"

text \<open>
  \<^verbatim>\<open>mapKeycloakRolesToInternalRoles\<close>. The method assigns to no field; the embedding
  returns the service state next to the result so that this can be stated.
\<close>

definition mapKeycloakRolesToInternalRoles :: "RolesService \<Rightarrow> string list \<Rightarrow> string list \<times> RolesService" where
  "mapKeycloakRolesToInternalRoles s kcRoles =
     (if isMock s then ([ADMIN_ROLE s], s)
      else if kcRoles = [] then ([], s)
      else
        (foldl (\<lambda>internalRoles keycloakRole.
                  case roleMappingCache s keycloakRole of
                    None \<Rightarrow> internalRoles
                  | Some mappedRoles \<Rightarrow> foldl Set_add internalRoles mappedRoles)
               [] kcRoles, s))"

text \<open>
  \<^verbatim>\<open>buildRoleMappingCache\<close>: the map is cleared and every internal role is pushed onto
  the entry of each of its Keycloak roles.
\<close>

definition buildRoleMappingCache :: "InternalRole list \<Rightarrow> RolesService \<Rightarrow> RolesService" where
  "buildRoleMappingCache internalRoles s =
     s\<lparr>roleMappingCache :=
         foldl (\<lambda>cache internalRole.
                  foldl (\<lambda>cache' keycloakRole.
                           case cache' keycloakRole of
                             None \<Rightarrow> cache'(keycloakRole \<mapsto> [name internalRole])
                           | Some mapped \<Rightarrow> cache'(keycloakRole \<mapsto> mapped @ [name internalRole]))
                        cache (keycloakRoles internalRole))
               Map.empty internalRoles\<rparr>"

text \<open>\<^verbatim>\<open>saveRolesToStorage\<close> and \<^verbatim>\<open>loadRolesFromStorage\<close>; a failed write is only logged.\<close>

definition saveRolesToStorage :: "InternalRole list \<Rightarrow> RolesService \<Rightarrow> RolesService" where
  "saveRolesToStorage rs s = (if sessionWritable s then s\<lparr>sessionRoles := Some rs\<rparr> else s)"

definition loadRolesFromStorage :: "RolesService \<Rightarrow> InternalRole list option" where
  "loadRolesFromStorage s = sessionRoles s"

definition getFallbackRoles :: "RolesService \<Rightarrow> InternalRole list" where
  "getFallbackRoles s =
     [\<lparr> name = ADMIN_ROLE s, displayName = ADMIN_ROLE s, description = ''Full system access'',
        keycloakRoles = [] \<rparr>]"

text \<open>
  What the observable of \<^verbatim>\<open>roleDataProvider.fetchRoleMappings()\<close> does once subscribed: it
  emits the role mappings, it fails, it completes without a value, or it stays silent.
\<close>

datatype fetch_outcome = FetchEmits "InternalRole list" | FetchFails | FetchCompletes | FetchSilent

text \<open>
  \<^verbatim>\<open>loadRoleMappings\<close> up to the subscription: without a stream it raises the loading flag
  and creates the stream from \<^verbatim>\<open>fetchRoleMappings()\<close>, whose fetch is then in flight.
\<close>

definition loadRoleMappings :: "RolesService \<Rightarrow> RolesService" where
  "loadRoleMappings s =
     (if internalRolesCache s = None
      then s\<lparr>isLoadingMappings := True, internalRolesCache := Some InFlight\<rparr>
      else s)"

text \<open>
  The provider's observable delivers to a fetch in flight. An emitted value runs the
  \<^verbatim>\<open>tap\<close> of \<^verbatim>\<open>fetchRoleMappings\<close> (build the map, save to storage); an error is replaced
  by \<^verbatim>\<open>of(getFallbackRoles())\<close> in \<^verbatim>\<open>catchError\<close>, behind the \<^verbatim>\<open>tap\<close>. Either value is
  replayed by the stream and reaches the \<^verbatim>\<open>next\<close> handler of \<^verbatim>\<open>loadRoleMappings\<close>; an
  empty completion makes \<^verbatim>\<open>first()\<close> fail and reaches its \<^verbatim>\<open>error\<close> handler. Both
  handlers clear the loading flag.
\<close>

definition fetchSettles :: "fetch_outcome \<Rightarrow> RolesService \<Rightarrow> RolesService" where
  "fetchSettles outcome s =
     (if internalRolesCache s \<noteq> Some InFlight then s
      else case outcome of
        FetchEmits rs \<Rightarrow>
          (saveRolesToStorage rs (buildRoleMappingCache rs s))
            \<lparr>internalRolesCache := Some (Replay rs), isLoadingMappings := False\<rparr>
      | FetchFails \<Rightarrow>
          s\<lparr>internalRolesCache := Some (Replay (getFallbackRoles s)), isLoadingMappings := False\<rparr>
      | FetchCompletes \<Rightarrow>
          s\<lparr>internalRolesCache := Some Completed, isLoadingMappings := False\<rparr>
      | FetchSilent \<Rightarrow> s)"

text \<open>\<^verbatim>\<open>initializeRoles\<close>: session storage first, then the provider.\<close>

definition initializeRoles :: "RolesService \<Rightarrow> RolesService" where
  "initializeRoles s =
     (let s1 = s\<lparr>isLoadingMappings := True\<rparr> in
      case loadRolesFromStorage s1 of
        Some cachedRoles \<Rightarrow>
          if cachedRoles \<noteq> []
          then (buildRoleMappingCache cachedRoles (s1\<lparr>internalRolesCache := Some (Replay cachedRoles)\<rparr>))
                 \<lparr>isLoadingMappings := False\<rparr>
          else loadRoleMappings s1
      | None \<Rightarrow> loadRoleMappings s1)"

text \<open>
  The promise of \<^verbatim>\<open>ensureRolesLoaded\<close>. It subscribes to \<^verbatim>\<open>isLoadingMappings$\<close>, a
  \<^verbatim>\<open>BehaviorSubject\<close>: it resolves at once when the flag is \<^verbatim>\<open>false\<close> after the
  initialisation, and otherwise when the flag is next set to \<^verbatim>\<open>false\<close>. \<^verbatim>\<open>reject\<close> is
  called from the \<^verbatim>\<open>error\<close> handler of that subscription, which the subject never
  reaches, and by an exception thrown inside the executor. With the session entry at the
  type \<^verbatim>\<open>InternalRole[]\<close>, as \<open>sessionRoles\<close> has it, no call of the executor throws; an
  entry of another shape, on which \<^verbatim>\<open>buildRoleMappingCache\<close> throws a \<^verbatim>\<open>TypeError\<close>, is
  not among the states of this record, and nothing below is stated about rejection.
\<close>

datatype promise = Resolved | Rejected js_error | Pending

definition ensureRolesLoaded :: "RolesService \<Rightarrow> promise \<times> RolesService" where
  "ensureRolesLoaded s =
     (let s1 = (if \<not> initialized s then initializeRoles (s\<lparr>initialized := True\<rparr>) else s)
      in (if isLoadingMappings s1 then Pending else Resolved, s1))"

text \<open>The promise after a later event that left the service in state \<open>s\<close>.\<close>

definition promiseAfter :: "promise \<Rightarrow> RolesService \<Rightarrow> promise" where
  "promiseAfter p s = (case p of Pending \<Rightarrow> if isLoadingMappings s then Pending else Resolved | _ \<Rightarrow> p)"

text \<open>
  \<^verbatim>\<open>getAvailableInternalRoles\<close>: starts the loading when there is no stream yet and
  returns the stream.
\<close>

definition getAvailableInternalRoles :: "RolesService \<Rightarrow> roles_stream option \<times> RolesService" where
  "getAvailableInternalRoles s =
     (let s1 = (if internalRolesCache s = None then loadRoleMappings s else s)
      in (internalRolesCache s1, s1))"

section \<open>Role guard (guards/role.guard.ts)\<close>

text \<open>
  \<^verbatim>\<open>RoleRouteData\<close>: each of the three role sets of \<^verbatim>\<open>route.data\<close> may be undefined
  (\<open>None\<close>). A \<^verbatim>\<open>UrlTree\<close> is kept as the arguments of \<^verbatim>\<open>router.createUrlTree\<close>.
\<close>

record RoleRouteData =
  roles :: "string list option"
  allRoles :: "string list option"
  excludeRoles :: "string list option"

datatype UrlTree = UrlTree (commands: "string list") (queryParams: "(string \<times> string) list")

text \<open>The guard's result \<^verbatim>\<open>boolean | UrlTree\<close>; the only boolean it returns is \<^verbatim>\<open>true\<close>.\<close>

datatype guard_result = GuardTrue | GuardRedirect UrlTree

definition accessDenied :: "string \<Rightarrow> UrlTree" where
  "accessDenied reason = UrlTree [''/dashboard''] [(''error'', ''access-denied''), (''reason'', reason)]"

text \<open>
  \<^verbatim>\<open>RoleGuard.checkRouteDataRoles\<close>. \<open>clientStage\<close> is \<^verbatim>\<open>environmentService.stage\<close>,
  \<open>adminRole\<close> is \<^verbatim>\<open>RolesService.ADMIN_ROLE\<close> and \<open>authRoles\<close> is what
  \<^verbatim>\<open>authService.getRoles()\<close> returns. An array is truthy also when it is empty, so
  \<^verbatim>\<open>!requiredRoles\<close> holds exactly for \<open>None\<close>.
\<close>

definition checkRouteDataRoles :: "Stage \<Rightarrow> string \<Rightarrow> string list \<Rightarrow> RoleRouteData \<Rightarrow> guard_result" where
  "checkRouteDataRoles clientStage adminRole authRoles routeData =
     (if roles routeData = None \<and> allRoles routeData = None \<and> excludeRoles routeData = None
      then GuardTrue
      else
        let userRoles = (if clientStage = Stage_MOCK then adminRole # authRoles else authRoles) in
        if (case excludeRoles routeData of
              None \<Rightarrow> False
            | Some ex \<Rightarrow> list_ex (\<lambda>excludeRole. excludeRole \<in> set userRoles) ex)
        then GuardRedirect (accessDenied ''excluded-role'')
        else if (case allRoles routeData of
                   None \<Rightarrow> False
                 | Some requiredAllRoles \<Rightarrow>
                     requiredAllRoles \<noteq> [] \<and> \<not> list_all (\<lambda>role. role \<in> set userRoles) requiredAllRoles)
        then GuardRedirect (accessDenied ''insufficient-roles'')
        else if (case roles routeData of
                   None \<Rightarrow> False
                 | Some requiredRoles \<Rightarrow>
                     requiredRoles \<noteq> [] \<and> \<not> list_ex (\<lambda>role. role \<in> set userRoles) requiredRoles)
        then GuardRedirect (accessDenied ''no-required-role'')
        else GuardTrue)"

section \<open>Banner component (layout/app-banner, interfaces/banner.interface.ts)\<close>

datatype BannerType = BT_error | BT_warning | BT_info | BT_success

text \<open>
  \<^verbatim>\<open>BannerConfig\<close>; \<open>id'\<close> is its property \<^verbatim>\<open>id\<close>. \<^verbatim>\<open>ErrorBannerConfig\<close> adds the two
  optional numbers (its \<^verbatim>\<open>type\<close> is always \<^verbatim>\<open>'error'\<close>).
\<close>

record BannerConfig =
  type :: BannerType
  title :: string
  message :: string
  icon :: "string property"
  customClasses :: "string property"
  autoHide :: "bool property"
  autoHideTimeout :: "int property"
  closable :: "bool property"
  id' :: "string property"

record ErrorBannerConfig = BannerConfig +
  errorThreshold :: "int property"
  timeWindow :: "int property"

record BannerState =
  isVisible :: bool
  config :: "BannerConfig option"
  errorCount :: nat
  errorTimestamps :: "int list"

text \<open>
  The component: the signal \<^verbatim>\<open>bannerState\<close> and the pending auto-hide timer (the delay it
  was started with), \<open>None\<close> when no timer runs.
\<close>

record AppBannerComponent =
  bannerState :: BannerState
  autoHideTimer :: "int option"

text \<open>The state the component is created with.\<close>

definition AppBannerComponent_new :: AppBannerComponent where
  "AppBannerComponent_new =
     \<lparr> bannerState = \<lparr> isVisible = False, config = None, errorCount = 0, errorTimestamps = [] \<rparr>,
       autoHideTimer = None \<rparr>"

text \<open>\<^verbatim>\<open>DEFAULT_CONFIGS\<close>: the \<^verbatim>\<open>Partial<BannerConfig>\<close> of each banner type.\<close>

record BannerDefaults =
  default_icon :: "string property"
  default_autoHide :: "bool property"
  default_autoHideTimeout :: "int property"
  default_closable :: "bool property"

fun DEFAULT_CONFIGS :: "BannerType \<Rightarrow> BannerDefaults" where
  "DEFAULT_CONFIGS BT_error =
     \<lparr> default_icon = Value ''pi pi-exclamation-triangle'', default_autoHide = Value True,
       default_autoHideTimeout = Value 60000, default_closable = Value True \<rparr>"
| "DEFAULT_CONFIGS BT_warning =
     \<lparr> default_icon = Value ''pi pi-exclamation-triangle'', default_autoHide = Value False,
       default_autoHideTimeout = Absent, default_closable = Value True \<rparr>"
| "DEFAULT_CONFIGS BT_info =
     \<lparr> default_icon = Value ''pi pi-info-circle'', default_autoHide = Value False,
       default_autoHideTimeout = Absent, default_closable = Value True \<rparr>"
| "DEFAULT_CONFIGS BT_success =
     \<lparr> default_icon = Value ''pi pi-check-circle'', default_autoHide = Value True,
       default_autoHideTimeout = Value 5000, default_closable = Value True \<rparr>"

definition DEFAULT_ERROR_THRESHOLD :: int where
  "DEFAULT_ERROR_THRESHOLD = 5"

definition DEFAULT_TIME_WINDOW_MS :: int where
  "DEFAULT_TIME_WINDOW_MS = 10000"

definition clearAutoHideTimer :: "AppBannerComponent \<Rightarrow> AppBannerComponent" where
  "clearAutoHideTimer c = c\<lparr>autoHideTimer := None\<rparr>"

text \<open>
  \<^verbatim>\<open>hide\<close>. The padding of the document body, which \<^verbatim>\<open>adjustBodyPadding\<close> sets from the
  rendered height, is not part of the model.
\<close>

definition AppBannerComponent_hide :: "AppBannerComponent \<Rightarrow> AppBannerComponent" where
  "AppBannerComponent_hide c =
     clearAutoHideTimer
       (c\<lparr>bannerState := (bannerState c)\<lparr>isVisible := False, config := None,
                                            errorCount := 0, errorTimestamps := []\<rparr>\<rparr>)"

text \<open>\<^verbatim>\<open>setupAutoHide\<close>: the timer is started when both properties are truthy.\<close>

definition setupAutoHide :: "BannerConfig \<Rightarrow> AppBannerComponent \<Rightarrow> AppBannerComponent" where
  "setupAutoHide cfg c =
     (let c' = clearAutoHideTimer c in
      case (autoHide cfg, autoHideTimeout cfg) of
        (Value True, Value t) \<Rightarrow> if t \<noteq> 0 then c'\<lparr>autoHideTimer := Some t\<rparr> else c'
      | _ \<Rightarrow> c')"

text \<open>The callback of the auto-hide timer: it runs \<^verbatim>\<open>hide\<close> when the timer is pending.\<close>

definition autoHideTimerFires :: "AppBannerComponent \<Rightarrow> AppBannerComponent" where
  "autoHideTimerFires c = (case autoHideTimer c of None \<Rightarrow> c | Some t \<Rightarrow> AppBannerComponent_hide c)"

text \<open>
  \<^verbatim>\<open>show\<close>; \<open>now\<close> is the value of \<^verbatim>\<open>Date.now()\<close>. \<^verbatim>\<open>type\<close>, \<^verbatim>\<open>title\<close> and \<^verbatim>\<open>message\<close>
  are required properties, so the spread takes them from \<open>cfg\<close>.
\<close>

definition AppBannerComponent_show :: "int \<Rightarrow> BannerConfig \<Rightarrow> AppBannerComponent \<Rightarrow> AppBannerComponent" where
  "AppBannerComponent_show now cfg c =
     (let defaultConfig = DEFAULT_CONFIGS (type cfg);
          mergedConfig =
            \<lparr> type = type cfg, title = title cfg, message = message cfg,
              icon = spread (default_icon defaultConfig) (icon cfg),
              customClasses = customClasses cfg,
              autoHide = spread (default_autoHide defaultConfig) (autoHide cfg),
              autoHideTimeout = spread (default_autoHideTimeout defaultConfig) (autoHideTimeout cfg),
              closable = spread (default_closable defaultConfig) (closable cfg),
              id' = (case id' cfg of
                       Value i \<Rightarrow> if i \<noteq> [] then Value i else Value (''banner-'' @ decimal now)
                     | _ \<Rightarrow> Value (''banner-'' @ decimal now)) \<rparr>
      in setupAutoHide mergedConfig
           (c\<lparr>bannerState := (bannerState c)\<lparr>isVisible := True, config := Some mergedConfig\<rparr>\<rparr>))"

text \<open>
  \<^verbatim>\<open>registerError\<close>; \<open>now\<close> is the value of \<^verbatim>\<open>Date.now()\<close>, taken as the same instant
  in the call of \<^verbatim>\<open>show\<close>. The result is the returned boolean and the component after
  the call.
\<close>

definition AppBannerComponent_registerError ::
    "int \<Rightarrow> ErrorBannerConfig option \<Rightarrow> AppBannerComponent \<Rightarrow> bool \<times> AppBannerComponent" where
  "AppBannerComponent_registerError now cfg c =
     (let threshold = (case cfg of None \<Rightarrow> DEFAULT_ERROR_THRESHOLD
                       | Some e \<Rightarrow> nullish (errorThreshold e) DEFAULT_ERROR_THRESHOLD);
          window = (case cfg of None \<Rightarrow> DEFAULT_TIME_WINDOW_MS
                    | Some e \<Rightarrow> nullish (timeWindow e) DEFAULT_TIME_WINDOW_MS);
          currentState = bannerState c;
          validTimestamps =
            filter (\<lambda>timestamp. now - timestamp < window) (errorTimestamps currentState) @ [now];
          c' = c\<lparr>bannerState := (bannerState c)\<lparr>errorCount := length validTimestamps,
                                                 errorTimestamps := validTimestamps\<rparr>\<rparr>
      in if int (length validTimestamps) \<ge> threshold
         then
           let errorConfig =
                 \<lparr> type = BT_error,
                   title = (case cfg of None \<Rightarrow> ''core.backendErrorBanner.title''
                            | Some e \<Rightarrow> if title e \<noteq> [] then title e else ''core.backendErrorBanner.title''),
                   message = (case cfg of None \<Rightarrow> ''core.backendErrorBanner.message''
                              | Some e \<Rightarrow> if message e \<noteq> [] then message e else ''core.backendErrorBanner.message''),
                   icon = (case cfg of None \<Rightarrow> Undefined | Some e \<Rightarrow> readProperty (icon e)),
                   customClasses = (case cfg of None \<Rightarrow> Undefined | Some e \<Rightarrow> readProperty (customClasses e)),
                   autoHide = (case cfg of None \<Rightarrow> Undefined | Some e \<Rightarrow> readProperty (autoHide e)),
                   autoHideTimeout = (case cfg of None \<Rightarrow> Undefined | Some e \<Rightarrow> readProperty (autoHideTimeout e)),
                   closable = (case cfg of None \<Rightarrow> Undefined | Some e \<Rightarrow> readProperty (closable e)),
                   id' = (case cfg of None \<Rightarrow> Undefined | Some e \<Rightarrow> readProperty (id' e)) \<rparr>
           in (True, AppBannerComponent_show now errorConfig c')
         else (False, c'))"

definition AppBannerComponent_isActive :: "AppBannerComponent \<Rightarrow> bool" where
  "AppBannerComponent_isActive c = isVisible (bannerState c)"

definition AppBannerComponent_getErrorCount :: "AppBannerComponent \<Rightarrow> nat" where
  "AppBannerComponent_getErrorCount c = errorCount (bannerState c)"

section \<open>Banner service (services/banner.service.ts)\<close>

text \<open>
  The service holds the registered banner component, or \<^verbatim>\<open>null\<close>. The component is a
  singleton that the service reaches by reference; the model keeps its state inside the
  service.
\<close>

record BannerService =
  bannerComponent :: "AppBannerComponent option"

definition BannerService_registerError ::
    "int \<Rightarrow> ErrorBannerConfig option \<Rightarrow> BannerService \<Rightarrow> bool \<times> BannerService" where
  "BannerService_registerError now cfg b =
     (case bannerComponent b of
        Some c \<Rightarrow>
          (let (result, c') = AppBannerComponent_registerError now cfg c
           in (result, b\<lparr>bannerComponent := Some c'\<rparr>))
      | None \<Rightarrow> (False, b))"

definition BannerService_isActive :: "BannerService \<Rightarrow> bool" where
  "BannerService_isActive b =
     (case bannerComponent b of Some c \<Rightarrow> AppBannerComponent_isActive c | None \<Rightarrow> False)"

section \<open>Messages (services/message.service.ts)\<close>

text \<open>
  A toast handed to PrimeNG's \<^verbatim>\<open>MessageService.add\<close>, with the properties the
  interceptors set; \<^verbatim>\<open>icon\<close>, \<^verbatim>\<open>closable\<close>, \<^verbatim>\<open>life\<close>, \<^verbatim>\<open>key\<close> and \<^verbatim>\<open>data\<close> of the default
  configurations are left out. \<^verbatim>\<open>detail\<close> is typed \<^verbatim>\<open>string\<close>, but the interceptors pass
  values of type \<^verbatim>\<open>any\<close>.
\<close>

record Message =
  severity :: string
  summary :: string
  detail :: json
  sticky :: bool

definition showError :: "json \<Rightarrow> Message list \<Rightarrow> Message list" where
  "showError d ms = ms @ [\<lparr> severity = ''error'', summary = ''Fehler'', detail = d, sticky = True \<rparr>]"

definition showInfo :: "json \<Rightarrow> Message list \<Rightarrow> Message list" where
  "showInfo d ms = ms @ [\<lparr> severity = ''info'', summary = ''Information'', detail = d, sticky = False \<rparr>]"

section \<open>API metadata service (services/api.service.ts)\<close>

text \<open>
  \<^verbatim>\<open>ApiService.apiMetadata\<close>: \<^verbatim>\<open>null\<close> or what \<^verbatim>\<open>setApiMetadata\<close> stored. The interceptor
  stores \<^verbatim>\<open>body.meta\<close> unchecked, so the field holds a value of type \<^verbatim>\<open>any\<close>.
\<close>

definition setApiMetadata :: "json \<Rightarrow> json option \<Rightarrow> json option" where
  "setApiMetadata meta apiMetadata = Some meta"

text \<open>
  \<^verbatim>\<open>setSessionId\<close>: without metadata the call does nothing. With an object it assigns
  the property \<^verbatim>\<open>session\<close>; assigning \<^verbatim>\<open>undefined\<close> (\<open>None\<close>) is modelled by removing the
  property, which reads the same. Strict-mode code throws a \<^verbatim>\<open>TypeError\<close> when the
  metadata is a truthy primitive. An array would get a named property, which \<open>json\<close>
  cannot hold; the type \<^verbatim>\<open>ApiMetadata\<close> excludes it and the model leaves it as it is.
\<close>

definition setSessionId :: "json option \<Rightarrow> json option \<Rightarrow> js_error + json option" where
  "setSessionId sessionId apiMetadata =
     (case apiMetadata of
        None \<Rightarrow> Inr None
      | Some m \<Rightarrow>
          if \<not> truthy m then Inr (Some m)
          else (case m of
                  JObj props \<Rightarrow>
                    Inr (Some (JObj (case sessionId of
                                       None \<Rightarrow> filter (\<lambda>kv. fst kv \<noteq> ''session'') props
                                     | Some v \<Rightarrow> AList.update ''session'' v props)))
                | JArr xs \<Rightarrow> Inr (Some m)
                | _ \<Rightarrow> Inl TypeError))"

text \<open>\<^verbatim>\<open>getSessionId\<close>: \<^verbatim>\<open>this.apiMetadata?.session ?? null\<close>, with \<open>None\<close> for \<^verbatim>\<open>null\<close>.\<close>

definition getSessionId :: "json option \<Rightarrow> json option" where
  "getSessionId apiMetadata =
     (case apiMetadata of
        None \<Rightarrow> None
      | Some m \<Rightarrow> (case getProp m ''session'' of None \<Rightarrow> None | Some JNull \<Rightarrow> None | Some v \<Rightarrow> Some v))"

section \<open>The injected singletons the interceptors use\<close>

text \<open>A call of \<^verbatim>\<open>router.navigate(commands, {queryParams})\<close>.\<close>

datatype navigation = Navigate "string list" "(string \<times> string) list"

text \<open>
  \<^verbatim>\<open>envStage\<close> is \<^verbatim>\<open>EnvironmentService.stage\<close>, \<^verbatim>\<open>apiMetadata\<close> the field of \<^verbatim>\<open>ApiService\<close>,
  \<^verbatim>\<open>messages\<close> the toasts added so far and \<^verbatim>\<open>navigations\<close> the router calls made so far.
\<close>

record App =
  envStage :: Stage
  apiMetadata :: "json option"
  bannerService :: BannerService
  messages :: "Message list"
  navigations :: "navigation list"

text \<open>The string value of a member of the enum \<^verbatim>\<open>Stage\<close>.\<close>

fun stageName :: "Stage \<Rightarrow> string" where
  "stageName Stage_BOOTSTRAP = ''BOOTSTRAP''"
| "stageName Stage_DEV = ''DEV''"
| "stageName Stage_ENTW = ''ENTW''"
| "stageName Stage_SYST = ''SYST''"
| "stageName Stage_INTG = ''INTG''"
| "stageName Stage_GATE = ''GATE''"
| "stageName Stage_PROD = ''PROD''"
| "stageName Stage_MOCK = ''MOCK''"

text \<open>
  An \<^verbatim>\<open>HttpRequest\<close>: its URL and its headers. \<^verbatim>\<open>HttpHeaders.has\<close> compares header names
  without regard to case.
\<close>

record HttpRequest =
  url :: string
  headers :: "(string \<times> string) list"

definition toLowerCase :: "string \<Rightarrow> string" where
  "toLowerCase s =
     map (\<lambda>c. if 65 \<le> (of_char c :: nat) \<and> (of_char c :: nat) \<le> 90
               then char_of ((of_char c :: nat) + 32) else c) s"

definition headers_has :: "HttpRequest \<Rightarrow> string \<Rightarrow> bool" where
  "headers_has request h = (toLowerCase h \<in> set (map (toLowerCase \<circ> fst) (headers request)))"

text \<open>An \<^verbatim>\<open>HttpEvent\<close>: a response with its body, or one of the other events.\<close>

datatype HttpEvent = HttpResponse json | OtherEvent

section \<open>Error interceptor (interceptors/api.error.interceptor.ts)\<close>

text \<open>
  The handler that \<^verbatim>\<open>errorInterceptor\<close> passes to \<^verbatim>\<open>catchError\<close>, run on the error of a
  request; \<open>now\<close> is the value of \<^verbatim>\<open>Date.now()\<close> and \<open>translate\<close> is
  \<^verbatim>\<open>TranslateService.instant\<close>. Every path ends in \<^verbatim>\<open>throwError\<close>: the result is the
  error thrown on and the singletons after the call. An error that is neither a
  \<^verbatim>\<open>TimeoutError\<close> nor an \<^verbatim>\<open>HttpErrorResponse\<close> is thrown on untouched.
\<close>

definition errorInterceptor ::
    "(string \<Rightarrow> string) \<Rightarrow> int \<Rightarrow> HttpRequest \<Rightarrow> js_error \<Rightarrow> App \<Rightarrow> js_error \<times> App" where
  "errorInterceptor translate now request err app =
     (let suppressToasts = headers_has request ''X-Suppress-Error-Toast'' in
      case err of
        TimeoutError \<Rightarrow>
          (let (shouldSilence, b) = BannerService_registerError now None (bannerService app);
               app1 = app\<lparr>bannerService := b\<rparr>;
               app2 = (if \<not> shouldSilence \<and> \<not> suppressToasts
                       then app1\<lparr>messages := messages app1 @
                              [\<lparr> severity = ''warn'',
                                 summary = translate ''core.interceptors.error.timeout.summary'',
                                 detail = JStr (translate ''core.interceptors.error.timeout.detail''),
                                 sticky = True \<rparr>]\<rparr>
                       else app1)
           in (Error ''Request timed out.'', app2))
      | HttpErrorResponse status errUrl errBody errMessage \<Rightarrow>
          if (case errUrl of
                None \<Rightarrow> False
              | Some u \<Rightarrow> u \<noteq> [] \<and> (String_includes u ''/status/403'' \<or> String_includes u ''/status/500''))
          then (err, app)
          else if status \<ge> 500 then
            (let (shouldSilence, b) =
                   BannerService_registerError now
                     (Some \<lparr> type = BT_error, title = ''core.backendErrorBanner.title'',
                             message = ''core.backendErrorBanner.message'', icon = Absent,
                             customClasses = Absent, autoHide = Absent, autoHideTimeout = Absent,
                             closable = Absent, id' = Absent, errorThreshold = Absent,
                             timeWindow = Absent \<rparr>)
                     (bannerService app);
                 app1 = app\<lparr>bannerService := b\<rparr>;
                 app2 = (if \<not> shouldSilence \<and> \<not> suppressToasts
                         then app1\<lparr>messages := messages app1 @
                                [\<lparr> severity = ''warn'',
                                   summary = translate ''core.interceptors.error.serverError.summary'',
                                   detail = JStr (translate ''core.interceptors.error.serverError.detail''),
                                   sticky = True \<rparr>]\<rparr>
                         else app1)
             in (err, app2))
          else
            (let app1 =
                   (if status \<noteq> 0 \<and> status \<ge> 400 then
                      (let msg = (case getProp errBody ''error'' of
                                    Some e \<Rightarrow> if truthy e then e
                                              else if errMessage \<noteq> [] then JStr errMessage
                                              else JStr (translate ''core.interceptors.error.genericError'')
                                  | None \<Rightarrow> if errMessage \<noteq> [] then JStr errMessage
                                            else JStr (translate ''core.interceptors.error.genericError''))
                       in if \<not> BannerService_isActive (bannerService app) \<and> \<not> suppressToasts
                          then app\<lparr>messages := showError msg (messages app)\<rparr>
                          else app)
                    else app);
                 app2 = (if status = 403
                         then app1\<lparr>navigations := navigations app1 @
                                [Navigate [''/status/403''] [(''error'', ''forbidden'')]]\<rparr>
                         else app1)
             in (err, app2))
      | _ \<Rightarrow> (err, app))"

section \<open>Envelope interceptor (interceptors/api.meta.interceptor.ts)\<close>

text \<open>
  \<^verbatim>\<open>String(v)\<close>, as a template literal applies it to \<^verbatim>\<open>meta.stage\<close>. Inside an array
  \<^verbatim>\<open>null\<close> prints as the empty string.
\<close>

fun joinWith :: "string \<Rightarrow> string list \<Rightarrow> string" where
  "joinWith sep [] = []"
| "joinWith sep [x] = x"
| "joinWith sep (x # y # ys) = x @ sep @ joinWith sep (y # ys)"

fun toString :: "json \<Rightarrow> string" where
  "toString JNull = ''null''"
| "toString (JBool b) = (if b then ''true'' else ''false'')"
| "toString (JNum n) = decimal n"
| "toString (JStr s) = s"
| "toString (JArr xs) = joinWith '','' (map (\<lambda>x. if x = JNull then [] else toString x) xs)"
| "toString (JObj kvs) = ''[object Object]''"

text \<open>\<^verbatim>\<open>typeof v === 'object'\<close> for a truthy value.\<close>

fun isObjectType :: "json \<Rightarrow> bool" where
  "isObjectType (JArr xs) = True"
| "isObjectType (JObj kvs) = True"
| "isObjectType v = False"

text \<open>The values of \<^verbatim>\<open>Object.entries(errors)\<close>, in the order of the property list.\<close>

fun entryValues :: "json \<Rightarrow> json list" where
  "entryValues (JObj kvs) = map snd kvs"
| "entryValues (JArr xs) = xs"
| "entryValues v = []"

definition stageMismatchMessage :: "Stage \<Rightarrow> json \<Rightarrow> string" where
  "stageMismatchMessage clientStage metaStage =
     ''Stage mismatch: Client expected stage '' @ [CHR 0x27] @ stageName clientStage @ [CHR 0x27]
       @ '' but API returned stage '' @ [CHR 0x27] @ toString metaStage @ [CHR 0x27]
       @ ''. Redirecting to error page.''"

text \<open>
  The function that \<^verbatim>\<open>apiInterceptor\<close> maps over the events of a request. The result is
  the event passed on (or the error thrown inside \<^verbatim>\<open>map\<close>) and the singletons after the
  call. \<^verbatim>\<open>event.clone({body: b})\<close> replaces the body, since \<open>b\<close> is not \<^verbatim>\<open>undefined\<close>
  on either path.
\<close>

definition apiInterceptor :: "HttpRequest \<Rightarrow> HttpEvent \<Rightarrow> App \<Rightarrow> (js_error + HttpEvent) \<times> App" where
  "apiInterceptor request event app =
     (let suppressToasts = headers_has request ''X-Suppress-Error-Toast'' in
      if startsWith (url request) ''/assets'' \<or> startsWith (url request) ''http://''
         \<or> startsWith (url request) ''https://''
      then (Inr event, app)
      else
        case event of
          OtherEvent \<Rightarrow> (Inr event, app)
        | HttpResponse body \<Rightarrow>
            (case (truthy body, getProp body ''result'', getProp body ''status'') of
               (True, Some result, Some status) \<Rightarrow>
                 (case setSessionId (getProp body ''session'') (apiMetadata app) of
                    Inl e \<Rightarrow> (Inl e, app)
                  | Inr md \<Rightarrow>
                      (let app1 = app\<lparr>apiMetadata := md\<rparr>;
                           app2 = (case getProp body ''message'' of
                                     Some (JStr m) \<Rightarrow>
                                       if m \<noteq> [] \<and> \<not> suppressToasts
                                       then app1\<lparr>messages := showInfo (JStr m) (messages app1)\<rparr>
                                       else app1
                                   | _ \<Rightarrow> app1)
                       in (Inr (HttpResponse result), app2)))
             | _ \<Rightarrow>
                 (case (truthy body, getProp body ''meta'', getProp body ''data'') of
                    (True, Some meta, Some data) \<Rightarrow>
                      if \<not> truthy meta then (Inr event, app)
                      else
                        (let app1 = app\<lparr>apiMetadata := setApiMetadata meta (apiMetadata app)\<rparr>;
                             clientStage = envStage app1;
                             app2 = (case getProp meta ''stage'' of
                                       Some metaStage \<Rightarrow>
                                         if truthy metaStage \<and> JStr (stageName clientStage) \<noteq> metaStage
                                         then app1\<lparr>navigations := navigations app1 @
                                                [Navigate [''/status/500'']
                                                   [(''message'', stageMismatchMessage clientStage metaStage)]]\<rparr>
                                         else app1
                                     | None \<Rightarrow> app1);
                             app3 = (case getProp body ''errors'' of
                                       Some errors \<Rightarrow>
                                         if truthy errors \<and> isObjectType errors \<and> \<not> suppressToasts
                                         then app2\<lparr>messages :=
                                                foldl (\<lambda>ms v. case v of
                                                                 JArr msgs \<Rightarrow> foldl (\<lambda>ms' msg. showError msg ms') ms msgs
                                                               | JStr s \<Rightarrow> showError (JStr s) ms
                                                               | _ \<Rightarrow> ms)
                                                      (messages app2) (entryValues errors)\<rparr>
                                         else app2
                                     | None \<Rightarrow> app2)
                         in (Inr (HttpResponse data), app3))
                  | _ \<Rightarrow> (Inr event, app))))"

text \<open>
  The relation between the two error fields of \<^verbatim>\<open>BannerState\<close> that the component's
  methods maintain.
\<close>

definition errorCountMatches :: "AppBannerComponent \<Rightarrow> bool" where
  "errorCountMatches c = (errorCount (bannerState c) = length (errorTimestamps (bannerState c)))"

section \<open>JSON text (the built-ins \<^verbatim>\<open>JSON.stringify\<close> and \<^verbatim>\<open>JSON.parse\<close>)\<close>

text \<open>
  The two built-ins on the values of type \<open>json\<close>. Strings are over 8-bit characters and
  numbers are integers: a number literal with a fraction or an exponent, and a
  \<^verbatim>\<open>\u\<close> escape above 255, are not read by this parser. The properties of an object
  are kept in the order of the text (JavaScript moves integer-like keys to the front).
\<close>

definition hexDigit :: "nat \<Rightarrow> char" where
  "hexDigit n = (if n < 10 then char_of (48 + n) else char_of (87 + n))"

definition escapeChar :: "char \<Rightarrow> string" where
  "escapeChar c =
     (if c = CHR 0x22 then [CHR 0x5C, CHR 0x22]
      else if c = CHR 0x5C then [CHR 0x5C, CHR 0x5C]
      else if c = CHR 0x08 then [CHR 0x5C, CHR ''b'']
      else if c = CHR 0x0C then [CHR 0x5C, CHR ''f'']
      else if c = CHR 0x0A then [CHR 0x5C, CHR ''n'']
      else if c = CHR 0x0D then [CHR 0x5C, CHR ''r'']
      else if c = CHR 0x09 then [CHR 0x5C, CHR ''t'']
      else if (of_char c :: nat) < 32
      then [CHR 0x5C, CHR ''u'', CHR ''0'', CHR ''0'',
            hexDigit ((of_char c :: nat) div 16), hexDigit ((of_char c :: nat) mod 16)]
      else [c])"

definition quoteJSONString :: "string \<Rightarrow> string" where
  "quoteJSONString s = CHR 0x22 # concat (map escapeChar s) @ [CHR 0x22]"

fun JSON_stringify :: "json \<Rightarrow> string" where
  "JSON_stringify JNull = ''null''"
| "JSON_stringify (JBool b) = (if b then ''true'' else ''false'')"
| "JSON_stringify (JNum n) = decimal n"
| "JSON_stringify (JStr s) = quoteJSONString s"
| "JSON_stringify (JArr xs) = ''['' @ joinWith '','' (map JSON_stringify xs) @ '']''"
| "JSON_stringify (JObj kvs) =
     ''{'' @ joinWith '','' (map (\<lambda>kv. quoteJSONString (fst kv) @ '':'' @ JSON_stringify (snd kv)) kvs) @ ''}''"

definition isWhitespace :: "char \<Rightarrow> bool" where
  "isWhitespace c = (c = CHR 0x20 \<or> c = CHR 0x09 \<or> c = CHR 0x0A \<or> c = CHR 0x0D)"

definition skipWhitespace :: "string \<Rightarrow> string" where
  "skipWhitespace s = dropWhile isWhitespace s"

definition isDigit :: "char \<Rightarrow> bool" where
  "isDigit c = (48 \<le> (of_char c :: nat) \<and> (of_char c :: nat) \<le> 57)"

fun parseDigits :: "nat \<Rightarrow> string \<Rightarrow> nat \<times> string" where
  "parseDigits acc [] = (acc, [])"
| "parseDigits acc (c # cs) =
     (if isDigit c then parseDigits (10 * acc + ((of_char c :: nat) - 48)) cs else (acc, c # cs))"

text \<open>
  A JSON number: an optional minus sign, then \<^verbatim>\<open>0\<close> or a digit sequence without a leading
  zero. What follows must not start a fraction or an exponent.
\<close>

definition parseNumber :: "string \<Rightarrow> (json \<times> string) option" where
  "parseNumber s =
     (let negative = (case s of [] \<Rightarrow> False | c # cs \<Rightarrow> c = CHR ''-'');
          s1 = (if negative then tl s else s)
      in case s1 of
           [] \<Rightarrow> None
         | c # cs \<Rightarrow>
             if \<not> isDigit c then None
             else
               let (n, rest) = (if c = CHR ''0'' then (0, cs) else parseDigits 0 s1) in
               if (case rest of [] \<Rightarrow> False | d # ds \<Rightarrow> d = CHR ''.'' \<or> d = CHR ''e'' \<or> d = CHR ''E'')
               then None
               else Some (JNum (if negative then - int n else int n), rest))"

definition hexValue :: "char \<Rightarrow> nat option" where
  "hexValue c =
     (let n = (of_char c :: nat) in
      if 48 \<le> n \<and> n \<le> 57 then Some (n - 48)
      else if 97 \<le> n \<and> n \<le> 102 then Some (n - 87)
      else if 65 \<le> n \<and> n \<le> 70 then Some (n - 55)
      else None)"

definition unescape :: "char \<Rightarrow> char option" where
  "unescape e =
     (if e = CHR 0x22 then Some (CHR 0x22)
      else if e = CHR 0x5C then Some (CHR 0x5C)
      else if e = CHR ''/'' then Some (CHR ''/'')
      else if e = CHR ''b'' then Some (CHR 0x08)
      else if e = CHR ''f'' then Some (CHR 0x0C)
      else if e = CHR ''n'' then Some (CHR 0x0A)
      else if e = CHR ''r'' then Some (CHR 0x0D)
      else if e = CHR ''t'' then Some (CHR 0x09)
      else None)"

text \<open>The characters of a string literal after its opening quote, and the rest of the text.\<close>

fun parseStringBody :: "string \<Rightarrow> (string \<times> string) option" where
  "parseStringBody [] = None"
| "parseStringBody (c # cs) =
     (if c = CHR 0x22 then Some ([], cs)
      else if c = CHR 0x5C then
        (case cs of
           [] \<Rightarrow> None
         | e # rest \<Rightarrow>
             if e = CHR ''u'' then
               (case rest of
                  h1 # h2 # h3 # h4 # rest' \<Rightarrow>
                    (case (hexValue h1, hexValue h2, hexValue h3, hexValue h4) of
                       (Some a, Some b, Some c', Some d) \<Rightarrow>
                         if a = 0 \<and> b = 0
                         then map_option (\<lambda>(str, r). (char_of (16 * c' + d) # str, r)) (parseStringBody rest')
                         else None
                     | _ \<Rightarrow> None)
                | _ \<Rightarrow> None)
             else
               (case unescape e of
                  Some ch \<Rightarrow> map_option (\<lambda>(str, r). (ch # str, r)) (parseStringBody rest)
                | None \<Rightarrow> None))
      else if (of_char c :: nat) < 32 then None
      else map_option (\<lambda>(str, r). (c # str, r)) (parseStringBody cs))"

text \<open>
  A value, the elements of an array after \<^verbatim>\<open>[\<close> or a comma, and the members of an object
  after \<^verbatim>\<open>{\<close> or a comma. The first argument bounds the number of nested calls; every
  second call consumes a character, so twice the length of the text is enough.
\<close>

fun parseValue :: "nat \<Rightarrow> string \<Rightarrow> (json \<times> string) option"
and parseElements :: "nat \<Rightarrow> string \<Rightarrow> (json list \<times> string) option"
and parseMembers :: "nat \<Rightarrow> string \<Rightarrow> ((string \<times> json) list \<times> string) option"
where
  "parseValue 0 s = None"
| "parseValue (Suc n) s =
     (case skipWhitespace s of
        [] \<Rightarrow> None
      | c # cs \<Rightarrow>
          if c = CHR ''n'' then (if startsWith cs ''ull'' then Some (JNull, drop 3 cs) else None)
          else if c = CHR ''t'' then (if startsWith cs ''rue'' then Some (JBool True, drop 3 cs) else None)
          else if c = CHR ''f'' then (if startsWith cs ''alse'' then Some (JBool False, drop 4 cs) else None)
          else if c = CHR 0x22 then map_option (\<lambda>(str, r). (JStr str, r)) (parseStringBody cs)
          else if c = CHR ''['' then
            (case skipWhitespace cs of
               [] \<Rightarrow> None
             | d # ds \<Rightarrow>
                 if d = CHR '']'' then Some (JArr [], ds)
                 else map_option (\<lambda>(xs, r). (JArr xs, r)) (parseElements n cs))
          else if c = CHR ''{'' then
            (case skipWhitespace cs of
               [] \<Rightarrow> None
             | d # ds \<Rightarrow>
                 if d = CHR ''}'' then Some (JObj [], ds)
                 else map_option
                        (\<lambda>(kvs, r). (JObj (foldl (\<lambda>ob kv. AList.update (fst kv) (snd kv) ob) [] kvs), r))
                        (parseMembers n cs))
          else parseNumber (c # cs))"
| "parseElements 0 s = None"
| "parseElements (Suc n) s =
     (case parseValue n s of
        None \<Rightarrow> None
      | Some (v, r) \<Rightarrow>
          (case skipWhitespace r of
             [] \<Rightarrow> None
           | c # cs \<Rightarrow>
               if c = CHR '','' then map_option (\<lambda>(vs, r'). (v # vs, r')) (parseElements n cs)
               else if c = CHR '']'' then Some ([v], cs)
               else None))"
| "parseMembers 0 s = None"
| "parseMembers (Suc n) s =
     (case skipWhitespace s of
        [] \<Rightarrow> None
      | c # cs \<Rightarrow>
          if c \<noteq> CHR 0x22 then None
          else
            (case parseStringBody cs of
               None \<Rightarrow> None
             | Some (k, r) \<Rightarrow>
                 (case skipWhitespace r of
                    [] \<Rightarrow> None
                  | d # ds \<Rightarrow>
                      if d \<noteq> CHR '':'' then None
                      else
                        (case parseValue n ds of
                           None \<Rightarrow> None
                         | Some (v, r') \<Rightarrow>
                             (case skipWhitespace r' of
                                [] \<Rightarrow> None
                              | e # es \<Rightarrow>
                                  if e = CHR '','' then map_option (\<lambda>(kvs, r''). ((k, v) # kvs, r'')) (parseMembers n es)
                                  else if e = CHR ''}'' then Some ([(k, v)], es)
                                  else None)))))"

text \<open>\<^verbatim>\<open>JSON.parse\<close>: \<open>None\<close> stands for the \<^verbatim>\<open>SyntaxError\<close> it throws.\<close>

definition JSON_parse :: "string \<Rightarrow> json option" where
  "JSON_parse s =
     (case parseValue (2 * length s + 2) s of
        None \<Rightarrow> None
      | Some (v, rest) \<Rightarrow> if skipWhitespace rest = [] then Some v else None)"

section \<open>Web storage (the browser's \<^verbatim>\<open>localStorage\<close> and \<^verbatim>\<open>sessionStorage\<close>)\<close>

text \<open>
  A \<^verbatim>\<open>Storage\<close> object of the browser: its entries, the space it offers (counted in
  characters of keys and values) and whether scripts may reach it. \<^verbatim>\<open>setItem\<close> throws a
  \<^verbatim>\<open>QuotaExceededError\<close> when the entry does not fit.
\<close>

record WebStorage =
  items :: "(string \<times> string) list"
  quota :: nat
  accessible :: bool

definition storageSize :: "(string \<times> string) list \<Rightarrow> nat" where
  "storageSize kvs = sum_list (map (\<lambda>kv. length (fst kv) + length (snd kv)) kvs)"

definition Storage_getItem :: "WebStorage \<Rightarrow> string \<Rightarrow> string option" where
  "Storage_getItem storage k = map_of (items storage) k"

definition Storage_setItem :: "string \<Rightarrow> string \<Rightarrow> WebStorage \<Rightarrow> js_error + WebStorage" where
  "Storage_setItem k v storage =
     (let items' = AList.update k v (items storage) in
      if storageSize items' \<le> quota storage then Inr (storage\<lparr>items := items'\<rparr>)
      else Inl (DOMException ''QuotaExceededError''))"

definition Storage_removeItem :: "string \<Rightarrow> WebStorage \<Rightarrow> WebStorage" where
  "Storage_removeItem k storage = storage\<lparr>items := AList.delete k (items storage)\<rparr>"

record Browser =
  localStorage :: WebStorage
  sessionStorage :: WebStorage

section \<open>Browser storage service (services/storage.service.ts)\<close>

datatype StorageType = LOCAL | SESSION

text \<open>\<^verbatim>\<open>StorageOptions\<close>; \<open>type'\<close> is its property \<^verbatim>\<open>type\<close>.\<close>

record StorageOptions =
  type' :: "StorageType property"
  prefix :: "string property"

definition defaultOptions :: StorageOptions where
  "defaultOptions = \<lparr> type' = Value LOCAL, prefix = Value [] \<rparr>"

text \<open>\<^verbatim>\<open>{ ...this.defaultOptions, ...options }\<close>.\<close>

definition mergeOptions :: "StorageOptions option \<Rightarrow> StorageOptions" where
  "mergeOptions options =
     (case options of
        None \<Rightarrow> defaultOptions
      | Some opt \<Rightarrow> \<lparr> type' = spread (type' defaultOptions) (type' opt),
                      prefix = spread (prefix defaultOptions) (prefix opt) \<rparr>)"

text \<open>
  \<^verbatim>\<open>getStorage\<close>: reading \<^verbatim>\<open>localStorage\<close> or \<^verbatim>\<open>sessionStorage\<close> throws when the browser
  denies access; a type that is \<^verbatim>\<open>undefined\<close> reaches the \<^verbatim>\<open>default\<close> branch.
  \<open>putStorage\<close> writes a changed storage back, as the mutation through the reference does.
\<close>

definition getStorage :: "StorageType property \<Rightarrow> Browser \<Rightarrow> js_error + WebStorage" where
  "getStorage t b =
     (case t of
        Value LOCAL \<Rightarrow>
          if accessible (localStorage b) then Inr (localStorage b) else Inl (DOMException ''SecurityError'')
      | Value SESSION \<Rightarrow>
          if accessible (sessionStorage b) then Inr (sessionStorage b) else Inl (DOMException ''SecurityError'')
      | _ \<Rightarrow> Inl (Error ''Unsupported storage type''))"

definition putStorage :: "StorageType property \<Rightarrow> WebStorage \<Rightarrow> Browser \<Rightarrow> Browser" where
  "putStorage t storage b =
     (case t of
        Value LOCAL \<Rightarrow> b\<lparr>localStorage := storage\<rparr>
      | Value SESSION \<Rightarrow> b\<lparr>sessionStorage := storage\<rparr>
      | _ \<Rightarrow> b)"

definition getPrefixedKey :: "string \<Rightarrow> string property \<Rightarrow> string" where
  "getPrefixedKey key p = (case p of Value pre \<Rightarrow> if pre \<noteq> [] then pre @ key else key | _ \<Rightarrow> key)"

text \<open>
  \<^verbatim>\<open>setItem\<close>: a string is stored as it is, any other value as its JSON text. The result
  is the returned boolean and the browser after the call.
\<close>

definition setItem :: "string \<Rightarrow> json \<Rightarrow> StorageOptions option \<Rightarrow> Browser \<Rightarrow> bool \<times> Browser" where
  "setItem key v options b =
     (let opts = mergeOptions options in
      case getStorage (type' opts) b of
        Inl e \<Rightarrow> (False, b)
      | Inr storage \<Rightarrow>
          (let finalKey = getPrefixedKey key (prefix opts);
               serializedValue = (case v of JStr s \<Rightarrow> s | _ \<Rightarrow> JSON_stringify v)
           in case Storage_setItem finalKey serializedValue storage of
                Inl e \<Rightarrow> (False, b)
              | Inr storage' \<Rightarrow> (True, putStorage (type' opts) storage' b)))"

text \<open>
  \<^verbatim>\<open>getItem\<close>: \<^verbatim>\<open>null\<close> (\<open>JNull\<close>) when the entry is missing or the storage cannot be
  reached; otherwise the parsed text, or the text itself when it does not parse.
\<close>

definition getItem :: "string \<Rightarrow> StorageOptions option \<Rightarrow> Browser \<Rightarrow> json" where
  "getItem key options b =
     (let opts = mergeOptions options in
      case getStorage (type' opts) b of
        Inl e \<Rightarrow> JNull
      | Inr storage \<Rightarrow>
          (let finalKey = getPrefixedKey key (prefix opts) in
           case Storage_getItem storage finalKey of
             None \<Rightarrow> JNull
           | Some stored \<Rightarrow> (case JSON_parse stored of Some v \<Rightarrow> v | None \<Rightarrow> JStr stored)))"

definition removeItem :: "string \<Rightarrow> StorageOptions option \<Rightarrow> Browser \<Rightarrow> bool \<times> Browser" where
  "removeItem key options b =
     (let opts = mergeOptions options in
      case getStorage (type' opts) b of
        Inl e \<Rightarrow> (False, b)
      | Inr storage \<Rightarrow>
          (let finalKey = getPrefixedKey key (prefix opts)
           in (True, putStorage (type' opts) (Storage_removeItem finalKey storage) b)))"

text \<open>\<^verbatim>\<open>hasItem\<close> has no \<^verbatim>\<open>try\<close>: an error of \<^verbatim>\<open>getStorage\<close> leaves the method.\<close>

definition hasItem :: "string \<Rightarrow> StorageOptions option \<Rightarrow> Browser \<Rightarrow> js_error + bool" where
  "hasItem key options b =
     (let opts = mergeOptions options in
      case getStorage (type' opts) b of
        Inl e \<Rightarrow> Inl e
      | Inr storage \<Rightarrow> Inr (Storage_getItem storage (getPrefixedKey key (prefix opts)) \<noteq> None))"

text \<open>
  The convenience methods, called without a prefix: the options then carry the property
  \<^verbatim>\<open>prefix\<close> with the value \<^verbatim>\<open>undefined\<close>.
\<close>

definition setLocal :: "string \<Rightarrow> json \<Rightarrow> Browser \<Rightarrow> bool \<times> Browser" where
  "setLocal key v b = setItem key v (Some \<lparr> type' = Value LOCAL, prefix = Undefined \<rparr>) b"

definition getLocal :: "string \<Rightarrow> Browser \<Rightarrow> json" where
  "getLocal key b = getItem key (Some \<lparr> type' = Value LOCAL, prefix = Undefined \<rparr>) b"

definition removeLocal :: "string \<Rightarrow> Browser \<Rightarrow> bool \<times> Browser" where
  "removeLocal key b = removeItem key (Some \<lparr> type' = Value LOCAL, prefix = Undefined \<rparr>) b"

section \<open>Preferences (services/preferences.service.ts, interfaces/preferences.interface.ts)\<close>

text \<open>
  \<^verbatim>\<open>Preferences\<close> objects are kept as the list of their properties: the service spreads
  them, compares their JSON texts and stores them as JSON.
\<close>

type_synonym Preferences = "(string \<times> json) list"

definition defaultPreferences :: Preferences where
  "defaultPreferences =
     [(''language'', JStr []),
      (''theme'', JStr ''aura-light-orange''),
      (''darkMode'', JBool False),
      (''scale'', JNum 14),
      (''menuLayout'', JStr ''horizontal''),
      (''autoDarkMode'', JBool False),
      (''preset'', JStr ''Aura''),
      (''primaryColor'', JStr ''orange''),
      (''surface'', JStr ''slate''),
      (''fontSize'', JStr ''1rem'')]"

definition PREFERENCES_VERSION :: int where
  "PREFERENCES_VERSION = 2"

definition LOCAL_STORAGE_KEY :: string where
  "LOCAL_STORAGE_KEY = ''user-preferences''"

definition VERSION_KEY :: string where
  "VERSION_KEY = ''preferences-version''"

text \<open>
  The own enumerable properties that \<^verbatim>\<open>{...v}\<close> copies from a value: those of an object,
  the indexed elements of an array and the indexed characters of a string.
\<close>

fun ownProperties :: "json \<Rightarrow> (string \<times> json) list" where
  "ownProperties (JObj kvs) = kvs"
| "ownProperties (JArr xs) = map (\<lambda>i. (decimal (int i), xs ! i)) [0..<length xs]"
| "ownProperties (JStr s) = map (\<lambda>i. (decimal (int i), JStr [s ! i])) [0..<length s]"
| "ownProperties v = []"

text \<open>\<^verbatim>\<open>{ ...a, ...b }\<close> on property lists: a property of \<open>b\<close> replaces the one of \<open>a\<close> in place or is added last.\<close>

definition objectSpread :: "(string \<times> json) list \<Rightarrow> (string \<times> json) list \<Rightarrow> (string \<times> json) list" where
  "objectSpread a b = foldl (\<lambda>ob kv. AList.update (fst kv) (snd kv) ob) a b"

text \<open>The service: the current value of \<^verbatim>\<open>preferencesSubject\<close>.\<close>

record PreferencesService =
  preferencesSubject :: Preferences

definition loadPreferences :: "Browser \<Rightarrow> Preferences" where
  "loadPreferences b =
     (let stored = getLocal LOCAL_STORAGE_KEY b in
      if truthy stored then objectSpread defaultPreferences (ownProperties stored)
      else defaultPreferences)"

definition savePreferences :: "Preferences \<Rightarrow> PreferencesService \<times> Browser \<Rightarrow> PreferencesService \<times> Browser" where
  "savePreferences preferences sb =
     (let (success, b') = setLocal LOCAL_STORAGE_KEY (JObj preferences) (snd sb) in
      if success then ((fst sb)\<lparr>preferencesSubject := preferences\<rparr>, b') else (fst sb, b'))"

text \<open>
  The constructor, run on the browser's storage: the service it creates and the storage
  afterwards, or the error that leaves it.
\<close>

definition PreferencesService_new :: "Browser \<Rightarrow> js_error + (PreferencesService \<times> Browser)" where
  "PreferencesService_new b =
     (let initialPreferences = loadPreferences b;
          svc = \<lparr> preferencesSubject = initialPreferences \<rparr>;
          storedVersion = getLocal VERSION_KEY b;
          currentVersion = decimal PREFERENCES_VERSION
      in if storedVersion \<noteq> JStr currentVersion then
           (let (removed, b1) = removeLocal LOCAL_STORAGE_KEY b;
                (versionSet, b2) = setLocal VERSION_KEY (JStr currentVersion) b1
            in Inr (savePreferences defaultPreferences (svc, b2)))
         else
           (case hasItem LOCAL_STORAGE_KEY None b of
              Inl e \<Rightarrow> Inl e
            | Inr present \<Rightarrow>
                if \<not> present then Inr (savePreferences defaultPreferences (svc, b))
                else
                  (let currentStored = loadPreferences b;
                       merged = objectSpread defaultPreferences currentStored
                   in if JSON_stringify (JObj currentStored) \<noteq> JSON_stringify (JObj merged)
                      then Inr (savePreferences merged (svc, b))
                      else Inr (svc, b))))"

definition getPreferences :: "PreferencesService \<Rightarrow> Preferences" where
  "getPreferences svc = preferencesSubject svc"

text \<open>\<^verbatim>\<open>updatePreference(key, value)\<close>.\<close>

definition updatePreference :: "string \<Rightarrow> json \<Rightarrow> PreferencesService \<times> Browser \<Rightarrow> PreferencesService \<times> Browser" where
  "updatePreference key v sb =
     savePreferences (AList.update key v (getPreferences (fst sb))) sb"

section \<open>Values that are read back from their JSON text\<close>

text \<open>
  Notions used to state that \<^verbatim>\<open>JSON.parse\<close> reads back what \<^verbatim>\<open>JSON.stringify\<close> wrote.
  \<open>numberEnd rest\<close>: a number literal followed by \<open>rest\<close> ends where \<open>rest\<close> begins.
  \<open>distinctKeys v\<close>: no object inside \<open>v\<close> has a property twice, as is the case for every
  object of the program. \<open>need v\<close>: the depth that \<open>parseValue\<close> descends to on the text of
  \<open>v\<close>. \<open>roundtrips v\<close>: \<open>parseValue\<close> reads \<open>v\<close> from its text, whatever follows it.
\<close>

definition numberEnd :: "string \<Rightarrow> bool" where
  "numberEnd rest = (case rest of [] \<Rightarrow> True | d # ds \<Rightarrow> \<not> isDigit d \<and> d \<noteq> CHR ''.'' \<and> d \<noteq> CHR ''e'' \<and> d \<noteq> CHR ''E'')"

fun distinctKeys :: "json \<Rightarrow> bool" where
  "distinctKeys (JArr xs) = list_all distinctKeys xs"
| "distinctKeys (JObj kvs) = (distinct (map fst kvs) \<and> list_all (\<lambda>kv. distinctKeys (snd kv)) kvs)"
| "distinctKeys v = True"

fun need :: "json \<Rightarrow> nat" where
  "need (JArr xs) = Suc (sum_list (map (\<lambda>x. Suc (need x)) xs))"
| "need (JObj kvs) = Suc (sum_list (map (\<lambda>kv. Suc (need (snd kv))) kvs))"
| "need v = 1"

definition roundtrips :: "json \<Rightarrow> bool" where
  "roundtrips v = (\<forall>n rest. need v \<le> n \<longrightarrow> numberEnd rest \<longrightarrow>
                     parseValue n (JSON_stringify v @ rest) = Some (v, rest))"

section \<open>Concrete inputs\<close>

text \<open>States and inputs on which the definitions are evaluated.\<close>

definition example_roles_service :: RolesService where
  "example_roles_service =
     \<lparr> stage = Stage_DEV, ADMIN_ROLE = ''admin'', SYSTEM_ROLE = ''system'', initialized = True,
       isLoadingMappings = False, internalRolesCache = None,
       roleMappingCache = [''kc-a'' \<mapsto> [''r1'', ''r2''], ''kc-b'' \<mapsto> [''r2'', ''r3'']],
       sessionRoles = None, sessionWritable = True \<rparr>"

definition example_route :: RoleRouteData where
  "example_route =
     \<lparr> roles = Some [''editor'', ''viewer''], allRoles = Some [''staff''],
       excludeRoles = Some [''editor''] \<rparr>"

definition example_config :: BannerConfig where
  "example_config =
     \<lparr> type = BT_warning, title = ''Maintenance'', message = ''Back at noon'', icon = Absent,
       customClasses = Absent, autoHide = Absent, autoHideTimeout = Absent,
       closable = Absent, id' = Absent \<rparr>"

definition example_banner :: AppBannerComponent where
  "example_banner =
     \<lparr> bannerState = \<lparr> isVisible = False, config = None, errorCount = 4,
                       errorTimestamps = [1000, 2000, 3000, 4000] \<rparr>,
       autoHideTimer = None \<rparr>"

definition example_app :: App where
  "example_app =
     \<lparr> envStage = Stage_DEV, apiMetadata = None,
       bannerService = \<lparr> bannerComponent = Some example_banner \<rparr>,
       messages = [], navigations = [] \<rparr>"

definition example_request :: HttpRequest where
  "example_request = \<lparr> url = ''/api/offers'', headers = [] \<rparr>"

definition example_envelope :: json where
  "example_envelope =
     JObj [(''meta'', JObj [(''stage'', JStr ''PROD'')]), (''data'', JObj [(''x'', JNum 1)])]"

definition example_legacy :: json where
  "example_legacy =
     JObj [(''status'', JNum 1), (''result'', JObj [(''y'', JNum 2)]), (''session'', JStr ''abc'')]"

definition example_external_request :: HttpRequest where
  "example_external_request = \<lparr> url = ''https://api.example.org/offers'', headers = [] \<rparr>"

definition example_app_with_meta :: App where
  "example_app_with_meta =
     example_app\<lparr>apiMetadata := Some (JObj [(''session'', JStr ''s0''), (''stage'', JStr ''DEV'')])\<rparr>"

definition example_role :: InternalRole where
  "example_role =
     \<lparr> name = ''fuv_offerte'', displayName = ''Offerten'', description = ''Offers'',
       keycloakRoles = [''kc-offerte''] \<rparr>"

definition example_new_roles_service :: RolesService where
  "example_new_roles_service =
     \<lparr> stage = Stage_DEV, ADMIN_ROLE = ''admin'', SYSTEM_ROLE = ''system'', initialized = False,
       isLoadingMappings = True, internalRolesCache = None, roleMappingCache = Map.empty,
       sessionRoles = None, sessionWritable = True \<rparr>"

text \<open>
  A new service on which \<^verbatim>\<open>getAvailableInternalRoles()\<close> was called and whose fetch then
  failed.
\<close>

definition example_roles_service_after_failed_fetch :: RolesService where
  "example_roles_service_after_failed_fetch =
     fetchSettles FetchFails (snd (getAvailableInternalRoles example_new_roles_service))"

definition example_storage :: WebStorage where
  "example_storage = \<lparr> items = [], quota = 10000, accessible = True \<rparr>"

definition example_browser :: Browser where
  "example_browser = \<lparr> localStorage = example_storage, sessionStorage = example_storage \<rparr>"

definition example_old_browser :: Browser where
  "example_old_browser =
     \<lparr> localStorage =
         \<lparr> items = [(''preferences-version'', ''1''),
                    (''user-preferences'', JSON_stringify (JObj [(''language'', JStr ''de'')]))],
           quota = 10000, accessible = True \<rparr>,
       sessionStorage = example_storage \<rparr>"

chapter \<open>Properties\<close>

section \<open>Role resolver\<close>

lemma set_foldl_Set_add: "set (foldl Set_add acc xs) = set acc \<union> set xs"
  by (induction xs arbitrary: acc) (auto simp: Set_add_def)

lemma set_collect_roles:
  "set (foldl (\<lambda>internalRoles keycloakRole.
                  case m keycloakRole of
                    None \<Rightarrow> internalRoles
                  | Some mappedRoles \<Rightarrow> foldl Set_add internalRoles mappedRoles) acc ks)
   = set acc \<union> {r. \<exists>k \<in> set ks. \<exists>rs. m k = Some rs \<and> r \<in> set rs}"
proof (induction ks arbitrary: acc)
  case Nil
  then show ?case by simp
next
  case (Cons k ks)
  show ?case
  proof (cases "m k")
    case None
    then show ?thesis using Cons.IH [of acc] by auto
  next
    case (Some rs)
    then show ?thesis using Cons.IH [of "foldl Set_add acc rs"]
      by (auto simp: set_foldl_Set_add)
  qed
qed

lemma set_mapKeycloakRoles:
  "set (fst (mapKeycloakRolesToInternalRoles s ks)) =
     (if isMock s then {ADMIN_ROLE s}
      else {r. \<exists>k \<in> set ks. \<exists>rs. roleMappingCache s k = Some rs \<and> r \<in> set rs})"
  by (auto simp: mapKeycloakRolesToInternalRoles_def set_collect_roles)

text \<open>
  C1. For every state of the service (so every reverse role-mapping cache) and all lists
  of Keycloak roles \<open>ks\<close> and \<open>ks'\<close> that are permutations of each other,
  \<^verbatim>\<open>mapKeycloakRolesToInternalRoles\<close> returns the same set of internal role names, and
  it leaves the service state, the cache included, as it was. Being a function of the
  state and the list, it is deterministic.
\<close>

theorem mapKeycloakRoles_order_independent:
  assumes "mset ks = mset ks'"
  shows "set (fst (mapKeycloakRolesToInternalRoles s ks)) = set (fst (mapKeycloakRolesToInternalRoles s ks'))
         \<and> snd (mapKeycloakRolesToInternalRoles s ks) = s
         \<and> snd (mapKeycloakRolesToInternalRoles s ks') = s"
proof -
  from assms have "set ks = set ks'" by (rule mset_eq_setD)
  then have "set (fst (mapKeycloakRolesToInternalRoles s ks)) = set (fst (mapKeycloakRolesToInternalRoles s ks'))"
    by (simp only: set_mapKeycloakRoles)
  moreover have "snd (mapKeycloakRolesToInternalRoles s k) = s" for k
    by (simp add: mapKeycloakRolesToInternalRoles_def)
  ultimately show ?thesis by simp
qed

theorem mapKeycloakRoles_order_independent_witness:
  "mset [''kc-a'', ''kc-b''] = mset [''kc-b'', ''kc-a'']
   \<and> set (fst (mapKeycloakRolesToInternalRoles example_roles_service [''kc-a'', ''kc-b'']))
       = set (fst (mapKeycloakRolesToInternalRoles example_roles_service [''kc-b'', ''kc-a'']))
   \<and> fst (mapKeycloakRolesToInternalRoles example_roles_service [''kc-a'', ''kc-b'']) = [''r1'', ''r2'', ''r3'']
   \<and> fst (mapKeycloakRolesToInternalRoles example_roles_service [''kc-b'', ''kc-a'']) = [''r2'', ''r3'', ''r1'']"
proof -
  have h: "mset [''kc-a'', ''kc-b''] = mset [''kc-b'', ''kc-a'']" by simp
  show ?thesis
    using h mapKeycloakRoles_order_independent [OF h, of example_roles_service]
    by (simp add: mapKeycloakRolesToInternalRoles_def example_roles_service_def isMock_def Set_add_def)
qed

section \<open>Loading the role mappings\<close>

lemma ensureRolesLoaded_first_call:
  assumes "\<not> initialized s" and "internalRolesCache s = None"
  shows "ensureRolesLoaded s =
     (case sessionRoles s of
        Some cachedRoles \<Rightarrow>
          if cachedRoles \<noteq> []
          then (Resolved, (buildRoleMappingCache cachedRoles s)
                  \<lparr>initialized := True, internalRolesCache := Some (Replay cachedRoles), isLoadingMappings := False\<rparr>)
          else (Pending, s\<lparr>initialized := True, isLoadingMappings := True, internalRolesCache := Some InFlight\<rparr>)
      | None \<Rightarrow> (Pending, s\<lparr>initialized := True, isLoadingMappings := True, internalRolesCache := Some InFlight\<rparr>))"
  using assms
  by (simp add: ensureRolesLoaded_def initializeRoles_def loadRoleMappings_def loadRolesFromStorage_def
        buildRoleMappingCache_def Let_def split: option.splits)

lemma ensureRolesLoaded_later_call:
  "initialized s \<Longrightarrow> ensureRolesLoaded s = (if isLoadingMappings s then Pending else Resolved, s)"
  by (simp add: ensureRolesLoaded_def)

lemma first_call_state:
  assumes "\<not> initialized s" and "internalRolesCache s = None"
  shows "initialized (snd (ensureRolesLoaded s))"
    and "isLoadingMappings (snd (ensureRolesLoaded s)) \<Longrightarrow>
           internalRolesCache (snd (ensureRolesLoaded s)) = Some InFlight"
    and "\<not> isLoadingMappings (snd (ensureRolesLoaded s)) \<Longrightarrow>
           internalRolesCache (snd (ensureRolesLoaded s)) \<noteq> Some InFlight"
  using assms
  by (auto simp: ensureRolesLoaded_first_call buildRoleMappingCache_def split: option.splits if_splits)

lemma fetchSettles_initialized:
  "initialized (fetchSettles outcome s) = initialized s"
  by (simp add: fetchSettles_def saveRolesToStorage_def buildRoleMappingCache_def
        split: fetch_outcome.splits)

lemma fetchSettles_clears:
  "internalRolesCache s = Some InFlight \<Longrightarrow> outcome \<noteq> FetchSilent \<Longrightarrow>
     \<not> isLoadingMappings (fetchSettles outcome s)"
  by (simp add: fetchSettles_def saveRolesToStorage_def buildRoleMappingCache_def
        split: fetch_outcome.splits)

lemma fetchSettles_idle:
  "internalRolesCache s \<noteq> Some InFlight \<Longrightarrow> fetchSettles outcome s = s"
  by (simp add: fetchSettles_def)

lemma first_call_settled:
  assumes "\<not> initialized s" and "internalRolesCache s = None" and "outcome \<noteq> FetchSilent"
  shows "\<not> isLoadingMappings (fetchSettles outcome (snd (ensureRolesLoaded s)))"
proof (cases "isLoadingMappings (snd (ensureRolesLoaded s))")
  case True
  then show ?thesis
    using first_call_state(2) [OF assms(1,2)] assms(3) by (simp add: fetchSettles_clears)
next
  case False
  then show ?thesis
    using first_call_state(3) [OF assms(1,2)] by (simp add: fetchSettles_idle)
qed

text \<open>
  When \<^verbatim>\<open>ensureRolesLoaded\<close> is the first to start the loading (no stream exists yet):
  with roles cached in session storage the promise is resolved at once with the loading
  flag cleared; otherwise the fetch is started, and as soon as it emits, fails or
  completes the loading flag is cleared and the promise is resolved. When the fetch
  fails, the stream holds the built-in fallback role (the admin role, without Keycloak
  roles); when it emits role mappings, the stream holds them. A further call, made before
  or after the fetch has delivered, returns a promise that is resolved once the fetch has
  delivered.
\<close>

lemma ensureRolesLoaded_first_to_load:
  "(\<not> initialized s \<and> internalRolesCache s = None \<longrightarrow>
        (\<forall>cachedRoles. sessionRoles s = Some cachedRoles \<and> cachedRoles \<noteq> [] \<longrightarrow>
           fst (ensureRolesLoaded s) = Resolved
           \<and> \<not> isLoadingMappings (snd (ensureRolesLoaded s))
           \<and> internalRolesCache (snd (ensureRolesLoaded s)) = Some (Replay cachedRoles))
      \<and> (outcome \<noteq> FetchSilent \<longrightarrow>
           promiseAfter (fst (ensureRolesLoaded s)) (fetchSettles outcome (snd (ensureRolesLoaded s))) = Resolved
           \<and> \<not> isLoadingMappings (fetchSettles outcome (snd (ensureRolesLoaded s))))
      \<and> ((sessionRoles s = None \<or> sessionRoles s = Some []) \<and> outcome = FetchFails \<longrightarrow>
           internalRolesCache (fetchSettles outcome (snd (ensureRolesLoaded s)))
             = Some (Replay [\<lparr> name = ADMIN_ROLE s, displayName = ADMIN_ROLE s,
                               description = ''Full system access'', keycloakRoles = [] \<rparr>]))
      \<and> (\<forall>rs. (sessionRoles s = None \<or> sessionRoles s = Some []) \<and> outcome = FetchEmits rs \<longrightarrow>
           internalRolesCache (fetchSettles outcome (snd (ensureRolesLoaded s))) = Some (Replay rs))
      \<and> (outcome \<noteq> FetchSilent \<longrightarrow>
           fst (ensureRolesLoaded (fetchSettles outcome (snd (ensureRolesLoaded s)))) = Resolved
           \<and> promiseAfter (fst (ensureRolesLoaded (snd (ensureRolesLoaded s))))
                 (fetchSettles outcome (snd (ensureRolesLoaded (snd (ensureRolesLoaded s))))) = Resolved))"
proof (intro conjI allI impI)
  fix cachedRoles
  assume "\<not> initialized s \<and> internalRolesCache s = None"
     and "sessionRoles s = Some cachedRoles \<and> cachedRoles \<noteq> []"
  then have r: "ensureRolesLoaded s = (Resolved, (buildRoleMappingCache cachedRoles s)
                  \<lparr>initialized := True, internalRolesCache := Some (Replay cachedRoles), isLoadingMappings := False\<rparr>)"
    by (simp add: ensureRolesLoaded_first_call)
  show "fst (ensureRolesLoaded s) = Resolved"
    and "\<not> isLoadingMappings (snd (ensureRolesLoaded s))"
    and "internalRolesCache (snd (ensureRolesLoaded s)) = Some (Replay cachedRoles)"
    unfolding r by simp_all
next
  assume first: "\<not> initialized s \<and> internalRolesCache s = None" and settled: "outcome \<noteq> FetchSilent"
  then show "promiseAfter (fst (ensureRolesLoaded s)) (fetchSettles outcome (snd (ensureRolesLoaded s))) = Resolved"
    and "\<not> isLoadingMappings (fetchSettles outcome (snd (ensureRolesLoaded s)))"
    by (auto simp: ensureRolesLoaded_first_call promiseAfter_def fetchSettles_def saveRolesToStorage_def
          buildRoleMappingCache_def split: option.splits fetch_outcome.splits)
next
  assume "\<not> initialized s \<and> internalRolesCache s = None"
     and "(sessionRoles s = None \<or> sessionRoles s = Some []) \<and> outcome = FetchFails"
  then show "internalRolesCache (fetchSettles outcome (snd (ensureRolesLoaded s)))
             = Some (Replay [\<lparr> name = ADMIN_ROLE s, displayName = ADMIN_ROLE s,
                               description = ''Full system access'', keycloakRoles = [] \<rparr>])"
    by (auto simp: ensureRolesLoaded_first_call fetchSettles_def getFallbackRoles_def)
next
  fix rs
  assume "\<not> initialized s \<and> internalRolesCache s = None"
     and "(sessionRoles s = None \<or> sessionRoles s = Some []) \<and> outcome = FetchEmits rs"
  then show "internalRolesCache (fetchSettles outcome (snd (ensureRolesLoaded s))) = Some (Replay rs)"
    by (auto simp: ensureRolesLoaded_first_call fetchSettles_def)
next
  assume first: "\<not> initialized s \<and> internalRolesCache s = None" and settled: "outcome \<noteq> FetchSilent"
  then have cleared: "\<not> isLoadingMappings (fetchSettles outcome (snd (ensureRolesLoaded s)))"
    by (simp add: first_call_settled)
  from first have init: "initialized (snd (ensureRolesLoaded s))"
    by (simp add: first_call_state(1))
  show "fst (ensureRolesLoaded (fetchSettles outcome (snd (ensureRolesLoaded s)))) = Resolved"
    using cleared init by (simp add: ensureRolesLoaded_later_call fetchSettles_initialized)
  show "promiseAfter (fst (ensureRolesLoaded (snd (ensureRolesLoaded s))))
          (fetchSettles outcome (snd (ensureRolesLoaded (snd (ensureRolesLoaded s))))) = Resolved"
    using cleared init by (simp add: ensureRolesLoaded_later_call promiseAfter_def)
qed

lemma ensureRolesLoaded_first_to_load_example:
  "\<not> initialized example_new_roles_service
   \<and> internalRolesCache example_new_roles_service = None
   \<and> fst (ensureRolesLoaded example_new_roles_service) = Pending
   \<and> promiseAfter Pending (fetchSettles FetchFails (snd (ensureRolesLoaded example_new_roles_service))) = Resolved
   \<and> \<not> isLoadingMappings (fetchSettles FetchFails (snd (ensureRolesLoaded example_new_roles_service)))
   \<and> internalRolesCache (fetchSettles FetchFails (snd (ensureRolesLoaded example_new_roles_service)))
       = Some (Replay [\<lparr> name = ''admin'', displayName = ''admin'',
                         description = ''Full system access'', keycloakRoles = [] \<rparr>])
   \<and> fst (ensureRolesLoaded (example_new_roles_service\<lparr>sessionRoles := Some [example_role]\<rparr>)) = Resolved"
  using ensureRolesLoaded_first_to_load [of example_new_roles_service FetchFails]
        ensureRolesLoaded_first_to_load [of "example_new_roles_service\<lparr>sessionRoles := Some [example_role]\<rparr>" FetchFails]
  by (simp add: example_new_roles_service_def ensureRolesLoaded_first_call)

lemma ensureRolesLoaded_stream_exists:
  assumes "\<not> initialized s" and "internalRolesCache s = Some stream"
      and "sessionRoles s = None \<or> sessionRoles s = Some []"
  shows "ensureRolesLoaded s = (Pending, s\<lparr>initialized := True, isLoadingMappings := True\<rparr>)"
  using assms
  by (auto simp: ensureRolesLoaded_def initializeRoles_def loadRoleMappings_def
        loadRolesFromStorage_def Let_def)

text \<open>
  C4. A first call of \<^verbatim>\<open>ensureRolesLoaded\<close> on a service whose stream already replays role
  mappings (\<^verbatim>\<open>getAvailableInternalRoles()\<close> started the fetch and it has delivered), while
  session storage holds no roles or an empty list: \<^verbatim>\<open>initializeRoles\<close> raises the loading
  flag, \<^verbatim>\<open>loadRoleMappings\<close> does nothing because the stream exists, and the promise is
  pending. The role mappings are available, the flag stays raised, and whatever the
  provider's observable does afterwards the promise stays pending; so does the promise
  of every further call.
\<close>

theorem ensureRolesLoaded_pending_with_roles_available:
  assumes "\<not> initialized s"
      and "internalRolesCache s = Some (Replay rs)"
      and "sessionRoles s = None \<or> sessionRoles s = Some []"
  shows "fst (ensureRolesLoaded s) = Pending
       \<and> internalRolesCache (snd (ensureRolesLoaded s)) = Some (Replay rs)
       \<and> isLoadingMappings (snd (ensureRolesLoaded s))
       \<and> fetchSettles outcome (snd (ensureRolesLoaded s)) = snd (ensureRolesLoaded s)
       \<and> promiseAfter (fst (ensureRolesLoaded s)) (fetchSettles outcome (snd (ensureRolesLoaded s))) = Pending
       \<and> fst (ensureRolesLoaded (fetchSettles outcome (snd (ensureRolesLoaded s)))) = Pending"
proof -
  let ?s' = "s\<lparr>initialized := True, isLoadingMappings := True\<rparr>"
  have call: "ensureRolesLoaded s = (Pending, ?s')"
    using assms by (rule ensureRolesLoaded_stream_exists)
  have idle: "fetchSettles outcome ?s' = ?s'"
    by (rule fetchSettles_idle) (simp add: assms(2))
  have later: "ensureRolesLoaded ?s' = (Pending, ?s')"
    by (simp add: ensureRolesLoaded_later_call)
  show ?thesis
    unfolding call by (simp add: idle later assms(2) promiseAfter_def)
qed

theorem ensureRolesLoaded_pending_with_roles_available_witness:
  "example_roles_service_after_failed_fetch
     = example_new_roles_service
         \<lparr>isLoadingMappings := False,
          internalRolesCache := Some (Replay [\<lparr> name = ''admin'', displayName = ''admin'',
                                   description = ''Full system access'', keycloakRoles = [] \<rparr>])\<rparr>
   \<and> fst (ensureRolesLoaded example_roles_service_after_failed_fetch) = Pending
   \<and> isLoadingMappings (snd (ensureRolesLoaded example_roles_service_after_failed_fetch))
   \<and> internalRolesCache (snd (ensureRolesLoaded example_roles_service_after_failed_fetch))
       = Some (Replay [\<lparr> name = ''admin'', displayName = ''admin'',
                          description = ''Full system access'', keycloakRoles = [] \<rparr>])
   \<and> promiseAfter (fst (ensureRolesLoaded example_roles_service_after_failed_fetch))
         (fetchSettles (FetchEmits [example_role])
            (snd (ensureRolesLoaded example_roles_service_after_failed_fetch))) = Pending
   \<and> fst (ensureRolesLoaded (snd (ensureRolesLoaded example_roles_service_after_failed_fetch))) = Pending
   \<and> fst (ensureRolesLoaded example_new_roles_service) = Pending
   \<and> promiseAfter (fst (ensureRolesLoaded example_new_roles_service))
         (fetchSettles FetchFails (snd (ensureRolesLoaded example_new_roles_service))) = Resolved"
proof -
  have state: "example_roles_service_after_failed_fetch
     = example_new_roles_service
         \<lparr>isLoadingMappings := False,
          internalRolesCache := Some (Replay [\<lparr> name = ''admin'', displayName = ''admin'',
                                   description = ''Full system access'', keycloakRoles = [] \<rparr>])\<rparr>"
    by (simp add: example_roles_service_after_failed_fetch_def getAvailableInternalRoles_def
          loadRoleMappings_def fetchSettles_def getFallbackRoles_def example_new_roles_service_def)
  have fresh: "fst (ensureRolesLoaded example_new_roles_service) = Pending
     \<and> promiseAfter (fst (ensureRolesLoaded example_new_roles_service))
         (fetchSettles FetchFails (snd (ensureRolesLoaded example_new_roles_service))) = Resolved"
    by (simp add: example_new_roles_service_def ensureRolesLoaded_first_call promiseAfter_def
          fetchSettles_def)
  have h: "\<not> initialized example_roles_service_after_failed_fetch"
          "internalRolesCache example_roles_service_after_failed_fetch
             = Some (Replay [\<lparr> name = ''admin'', displayName = ''admin'',
                                description = ''Full system access'', keycloakRoles = [] \<rparr>])"
          "sessionRoles example_roles_service_after_failed_fetch = None
             \<or> sessionRoles example_roles_service_after_failed_fetch = Some []"
    unfolding state by (simp_all add: example_new_roles_service_def)
  note pending = ensureRolesLoaded_pending_with_roles_available [OF h, of "FetchEmits [example_role]"]
  have p1: "fst (ensureRolesLoaded example_roles_service_after_failed_fetch) = Pending"
    using pending by blast
  have p2: "isLoadingMappings (snd (ensureRolesLoaded example_roles_service_after_failed_fetch))"
    using pending by blast
  have p3: "internalRolesCache (snd (ensureRolesLoaded example_roles_service_after_failed_fetch))
       = Some (Replay [\<lparr> name = ''admin'', displayName = ''admin'',
                          description = ''Full system access'', keycloakRoles = [] \<rparr>])"
    using pending by blast
  have p4: "promiseAfter (fst (ensureRolesLoaded example_roles_service_after_failed_fetch))
         (fetchSettles (FetchEmits [example_role])
            (snd (ensureRolesLoaded example_roles_service_after_failed_fetch))) = Pending"
    using pending by blast
  have idle: "fetchSettles (FetchEmits [example_role])
                (snd (ensureRolesLoaded example_roles_service_after_failed_fetch))
              = snd (ensureRolesLoaded example_roles_service_after_failed_fetch)"
    using pending by blast
  have "fst (ensureRolesLoaded (fetchSettles (FetchEmits [example_role])
               (snd (ensureRolesLoaded example_roles_service_after_failed_fetch)))) = Pending"
    using pending by blast
  then have p5: "fst (ensureRolesLoaded (snd (ensureRolesLoaded example_roles_service_after_failed_fetch))) = Pending"
    unfolding idle .
  from state p1 p2 p3 p4 p5 fresh show ?thesis
    by blast
qed

section \<open>Role guard\<close>

text \<open>
  C2. For route data that declares all three role sets and every list of user roles
  (\<open>userRoles\<close> is the list the guard computes: the roles of the auth service, with the
  admin role in front in mock mode): if the user holds one of the excluded roles the
  guard returns the \<^verbatim>\<open>excluded-role\<close> redirect, whatever the two required sets are; in
  particular it does so for a role the user holds that is both required and excluded.
  When the user holds no excluded role, the all-of set is evaluated next and the any-of
  set last.
\<close>

theorem checkRouteDataRoles_exclusion_first:
  assumes "roles routeData = Some requiredRoles"
      and "allRoles routeData = Some requiredAllRoles"
      and "excludeRoles routeData = Some excluded"
      and "userRoles = (if clientStage = Stage_MOCK then adminRole # authRoles else authRoles)"
  shows "((\<exists>r \<in> set excluded. r \<in> set userRoles) \<longrightarrow>
            checkRouteDataRoles clientStage adminRole authRoles routeData
              = GuardRedirect (accessDenied ''excluded-role''))
       \<and> (\<forall>r. r \<in> set excluded \<and> (r \<in> set requiredRoles \<or> r \<in> set requiredAllRoles) \<and> r \<in> set userRoles \<longrightarrow>
            checkRouteDataRoles clientStage adminRole authRoles routeData
              = GuardRedirect (accessDenied ''excluded-role''))
       \<and> (\<not> (\<exists>r \<in> set excluded. r \<in> set userRoles) \<longrightarrow>
            checkRouteDataRoles clientStage adminRole authRoles routeData
              = (if requiredAllRoles \<noteq> [] \<and> \<not> set requiredAllRoles \<subseteq> set userRoles
                 then GuardRedirect (accessDenied ''insufficient-roles'')
                 else if requiredRoles \<noteq> [] \<and> set requiredRoles \<inter> set userRoles = {}
                 then GuardRedirect (accessDenied ''no-required-role'')
                 else GuardTrue))"
proof -
  have ex: "list_ex (\<lambda>r. r \<in> set userRoles) xs \<longleftrightarrow> (\<exists>r \<in> set xs. r \<in> set userRoles)" for xs
    by (simp add: list_ex_iff)
  have al: "list_all (\<lambda>r. r \<in> set userRoles) xs \<longleftrightarrow> set xs \<subseteq> set userRoles" for xs
    by (auto simp: list_all_iff)
  have disj: "(\<exists>r \<in> set xs. r \<in> set userRoles) \<longleftrightarrow> set xs \<inter> set userRoles \<noteq> {}" for xs
    by auto
  have unfolded: "checkRouteDataRoles clientStage adminRole authRoles routeData
      = (if \<exists>r \<in> set excluded. r \<in> set userRoles then GuardRedirect (accessDenied ''excluded-role'')
         else if requiredAllRoles \<noteq> [] \<and> \<not> set requiredAllRoles \<subseteq> set userRoles
         then GuardRedirect (accessDenied ''insufficient-roles'')
         else if requiredRoles \<noteq> [] \<and> set requiredRoles \<inter> set userRoles = {}
         then GuardRedirect (accessDenied ''no-required-role'')
         else GuardTrue)"
    unfolding checkRouteDataRoles_def Let_def assms(1-3) assms(4) [symmetric]
    by (simp add: ex al disj)
  show ?thesis unfolding unfolded by auto
qed

theorem checkRouteDataRoles_exclusion_first_witness:
  "roles example_route = Some [''editor'', ''viewer'']
   \<and> allRoles example_route = Some [''staff'']
   \<and> excludeRoles example_route = Some [''editor'']
   \<and> (\<exists>r \<in> set [''editor'']. r \<in> set [''staff'', ''editor''])
   \<and> checkRouteDataRoles Stage_DEV ''admin'' [''staff'', ''editor''] example_route
       = GuardRedirect (accessDenied ''excluded-role'')
   \<and> checkRouteDataRoles Stage_DEV ''admin'' [''viewer''] example_route
       = GuardRedirect (accessDenied ''insufficient-roles'')
   \<and> checkRouteDataRoles Stage_DEV ''admin'' [''staff''] example_route
       = GuardRedirect (accessDenied ''no-required-role'')
   \<and> checkRouteDataRoles Stage_DEV ''admin'' [''staff'', ''viewer''] example_route = GuardTrue"
  using checkRouteDataRoles_exclusion_first
    [where routeData = example_route and requiredRoles = "[''editor'', ''viewer'']"
       and requiredAllRoles = "[''staff'']" and excluded = "[''editor'']"
       and userRoles = "[''staff'', ''editor'']" and clientStage = Stage_DEV
       and authRoles = "[''staff'', ''editor'']" and adminRole = "''admin''"]
  by (simp add: example_route_def checkRouteDataRoles_def accessDenied_def)

section \<open>Banner escalation and the error interceptor\<close>

lemma bannerState_setupAutoHide [simp]: "bannerState (setupAutoHide cfg c) = bannerState c"
  by (simp add: setupAutoHide_def clearAutoHideTimer_def Let_def split: property.splits bool.splits)

lemma show_frame [simp]:
  "errorCount (bannerState (AppBannerComponent_show now cfg c)) = errorCount (bannerState c)"
  "errorTimestamps (bannerState (AppBannerComponent_show now cfg c)) = errorTimestamps (bannerState c)"
  "isVisible (bannerState (AppBannerComponent_show now cfg c))"
  by (simp_all add: AppBannerComponent_show_def Let_def)

lemma registerError_timestamps:
  "errorTimestamps (bannerState (snd (AppBannerComponent_registerError now cfg c)))
     = filter (\<lambda>t. now - t < (case cfg of None \<Rightarrow> DEFAULT_TIME_WINDOW_MS
                    | Some e \<Rightarrow> nullish (timeWindow e) DEFAULT_TIME_WINDOW_MS)) (errorTimestamps (bannerState c)) @ [now]"
  by (simp add: AppBannerComponent_registerError_def Let_def)

lemma registerError_count:
  "errorCount (bannerState (snd (AppBannerComponent_registerError now cfg c)))
     = length (errorTimestamps (bannerState (snd (AppBannerComponent_registerError now cfg c))))"
  by (simp add: AppBannerComponent_registerError_def Let_def)

text \<open>
  C10. \<^verbatim>\<open>errorCount\<close> equals the length of \<^verbatim>\<open>errorTimestamps\<close> in the state the
  component is created with, and \<^verbatim>\<open>show\<close>, \<^verbatim>\<open>hide\<close>, \<^verbatim>\<open>registerError\<close> and the
  auto-hide timer's callback keep it so (\<^verbatim>\<open>hide\<close> and \<^verbatim>\<open>registerError\<close> establish it
  from any state).
\<close>

theorem banner_errorCount_invariant:
  "errorCountMatches AppBannerComponent_new
   \<and> (errorCountMatches c \<longrightarrow> errorCountMatches (AppBannerComponent_show now cfg c))
   \<and> errorCountMatches (AppBannerComponent_hide c)
   \<and> errorCountMatches (snd (AppBannerComponent_registerError now ecfg c))
   \<and> (errorCountMatches c \<longrightarrow> errorCountMatches (autoHideTimerFires c))"
proof -
  have 1: "errorCountMatches AppBannerComponent_new"
    by (simp add: errorCountMatches_def AppBannerComponent_new_def)
  have 2: "errorCountMatches c \<Longrightarrow> errorCountMatches (AppBannerComponent_show now cfg c)"
    by (simp add: errorCountMatches_def)
  have 3: "errorCountMatches (AppBannerComponent_hide c)" for c
    by (simp add: errorCountMatches_def AppBannerComponent_hide_def clearAutoHideTimer_def)
  have 4: "errorCountMatches (snd (AppBannerComponent_registerError now ecfg c))"
    unfolding errorCountMatches_def by (rule registerError_count)
  have 5: "errorCountMatches c \<Longrightarrow> errorCountMatches (autoHideTimerFires c)"
    by (simp add: autoHideTimerFires_def 3 split: option.splits)
  from 1 2 3 4 5 show ?thesis by blast
qed

theorem banner_errorCount_invariant_witness:
  "errorCountMatches AppBannerComponent_new
   \<and> errorCountMatches (AppBannerComponent_show 7 example_config AppBannerComponent_new)
   \<and> errorCountMatches (autoHideTimerFires AppBannerComponent_new)
   \<and> errorCount (bannerState (snd (AppBannerComponent_registerError 7 None AppBannerComponent_new))) = 1
   \<and> errorTimestamps (bannerState (snd (AppBannerComponent_registerError 7 None AppBannerComponent_new))) = [7]"
  using banner_errorCount_invariant [of AppBannerComponent_new 7 example_config None]
  by (simp add: registerError_timestamps registerError_count AppBannerComponent_new_def)









section \<open>403 and the access-denied page\<close>

text \<open>
  A response with status 403 whose URL is that of the status page: the interceptor
  throws it on and the router is not called.
\<close>

theorem errorInterceptor_403_status_page_counterexample:
  "errorInterceptor (\<lambda>k. k) 5000 example_request
     (HttpErrorResponse 403 (Some ''/status/403'') JNull ''Forbidden'') example_app
   = (HttpErrorResponse 403 (Some ''/status/403'') JNull ''Forbidden'', example_app)
   \<and> navigations (snd (errorInterceptor (\<lambda>k. k) 5000 example_request
          (HttpErrorResponse 403 (Some ''/status/403'') JNull ''Forbidden'') example_app)) = []"
  by (simp add: errorInterceptor_def example_app_def startsWith_def)

text \<open>
  C8 (amended). For every error response with status 403 whose URL is absent or
  contains neither \<^verbatim>\<open>/status/403\<close> nor \<^verbatim>\<open>/status/500\<close>, the error interceptor calls
  \<^verbatim>\<open>router.navigate(['/status/403'], {queryParams: {error: 'forbidden'}})\<close> once and
  throws the error on. (An error of a status page itself is thrown on without a
  navigation.)
\<close>

theorem errorInterceptor_403_navigates:
  assumes "case errUrl of None \<Rightarrow> True
           | Some u \<Rightarrow> \<not> String_includes u ''/status/403'' \<and> \<not> String_includes u ''/status/500''"
  shows "navigations (snd (errorInterceptor translate now request
                             (HttpErrorResponse 403 errUrl errBody errMessage) app))
           = navigations app @ [Navigate [''/status/403''] [(''error'', ''forbidden'')]]
       \<and> fst (errorInterceptor translate now request
                 (HttpErrorResponse 403 errUrl errBody errMessage) app)
           = HttpErrorResponse 403 errUrl errBody errMessage"
proof -
  have gate: "\<not> (case errUrl of None \<Rightarrow> False
              | Some u \<Rightarrow> u \<noteq> [] \<and> (String_includes u ''/status/403'' \<or> String_includes u ''/status/500''))"
    using assms by (simp split: option.splits)
  show ?thesis
    using gate by (simp add: errorInterceptor_def Let_def)
qed

theorem errorInterceptor_403_navigates_witness:
  "navigations (snd (errorInterceptor (\<lambda>k. k) 5000 example_request
                       (HttpErrorResponse 403 (Some ''/api/offers'') JNull ''Forbidden'') example_app))
     = [Navigate [''/status/403''] [(''error'', ''forbidden'')]]"
proof -
  have "case Some ''/api/offers'' of None \<Rightarrow> True
        | Some u \<Rightarrow> \<not> String_includes u ''/status/403'' \<and> \<not> String_includes u ''/status/500''"
    by (simp add: startsWith_def)
  from errorInterceptor_403_navigates [OF this, of "\<lambda>k. k" 5000 example_request JNull "''Forbidden''" example_app]
  show ?thesis by (simp add: example_app_def)
qed

section \<open>Envelope unwrapping\<close>

lemma getProp_Some_truthy: "getProp body k = Some v \<Longrightarrow> truthy body"
  by (cases body) simp_all

text \<open>
  The envelope \<^verbatim>\<open>{meta: {stage: "PROD"}, data: {x: 1}}\<close> as the answer to a request with an
  absolute URL, the client being at stage \<^verbatim>\<open>DEV\<close>: the response is passed on as it came
  and the router is not called.
\<close>

theorem apiInterceptor_external_url_counterexample:
  "apiInterceptor example_external_request (HttpResponse example_envelope) example_app
     = (Inr (HttpResponse example_envelope), example_app)
   \<and> example_envelope \<noteq> JObj [(''x'', JNum 1)]
   \<and> navigations (snd (apiInterceptor example_external_request (HttpResponse example_envelope) example_app)) = []
   \<and> envStage example_app = Stage_DEV
   \<and> getProp example_envelope ''meta'' = Some (JObj [(''stage'', JStr ''PROD'')])
   \<and> getProp example_envelope ''data'' = Some (JObj [(''x'', JNum 1)])"
  by (simp add: apiInterceptor_def example_external_request_def example_envelope_def
        example_app_def startsWith_def)

text \<open>
  C5 (amended). For every response to a request whose URL starts with none of
  \<^verbatim>\<open>/assets\<close>, \<^verbatim>\<open>http://\<close> and \<^verbatim>\<open>https://\<close>, and whose body has \<^verbatim>\<open>meta\<close> and \<^verbatim>\<open>data\<close>, a
  truthy \<^verbatim>\<open>meta.stage\<close> that differs from the client's stage, and not both \<^verbatim>\<open>status\<close> and
  \<^verbatim>\<open>result\<close> (such a body is unwrapped as a legacy envelope), the interceptor navigates
  to \<^verbatim>\<open>/status/500\<close> with the stage-mismatch message and passes on the response with
  \<^verbatim>\<open>data\<close> as its body.
\<close>

theorem apiInterceptor_stage_mismatch:
  assumes "\<not> startsWith (url request) ''/assets''"
      and "\<not> startsWith (url request) ''http://''"
      and "\<not> startsWith (url request) ''https://''"
      and "getProp body ''meta'' = Some meta"
      and "getProp meta ''stage'' = Some metaStage"
      and "truthy metaStage"
      and "metaStage \<noteq> JStr (stageName (envStage app))"
      and "getProp body ''data'' = Some data"
      and "getProp body ''result'' = None \<or> getProp body ''status'' = None"
  shows "fst (apiInterceptor request (HttpResponse body) app) = Inr (HttpResponse data)
       \<and> navigations (snd (apiInterceptor request (HttpResponse body) app))
           = navigations app @
               [Navigate [''/status/500''] [(''message'', stageMismatchMessage (envStage app) metaStage)]]"
proof -
  have tb: "truthy body" using assms(4) by (rule getProp_Some_truthy)
  have tm: "truthy meta" using assms(5) by (rule getProp_Some_truthy)
  have neq: "JStr (stageName (envStage app)) \<noteq> metaStage" using assms(7) by simp
  from assms(9) show ?thesis
  proof
    assume "getProp body ''result'' = None"
    then show ?thesis
      using assms(1-3) tb tm neq
      by (simp add: apiInterceptor_def Let_def assms(4,5,6,8) split: option.splits)
  next
    assume "getProp body ''status'' = None"
    then show ?thesis
      using assms(1-3) tb tm neq
      by (simp add: apiInterceptor_def Let_def assms(4,5,6,8) split: option.splits)
  qed
qed

theorem apiInterceptor_stage_mismatch_witness:
  "apiInterceptor example_request (HttpResponse example_envelope) example_app
     = (Inr (HttpResponse (JObj [(''x'', JNum 1)])),
        example_app\<lparr>apiMetadata := Some (JObj [(''stage'', JStr ''PROD'')]),
                     navigations := [Navigate [''/status/500'']
                       [(''message'', stageMismatchMessage Stage_DEV (JStr ''PROD''))]]\<rparr>)"
proof -
  have "fst (apiInterceptor example_request (HttpResponse example_envelope) example_app)
          = Inr (HttpResponse (JObj [(''x'', JNum 1)]))
       \<and> navigations (snd (apiInterceptor example_request (HttpResponse example_envelope) example_app))
           = navigations example_app @
               [Navigate [''/status/500''] [(''message'', stageMismatchMessage (envStage example_app) (JStr ''PROD''))]]"
    by (rule apiInterceptor_stage_mismatch [where meta = "JObj [(''stage'', JStr ''PROD'')]"])
       (simp_all add: example_request_def example_envelope_def example_app_def startsWith_def)
  then show ?thesis
    by (simp add: apiInterceptor_def example_request_def example_envelope_def example_app_def
          startsWith_def headers_has_def setApiMetadata_def)
qed

text \<open>
  The legacy envelope \<^verbatim>\<open>{status: 1, result: {y: 2}, session: "abc"}\<close> as the answer to a
  request with an absolute URL: it is passed on as it came, and nothing is recorded.
\<close>

lemma apiInterceptor_legacy_external_url:
  "apiInterceptor example_external_request (HttpResponse example_legacy) example_app
     = (Inr (HttpResponse example_legacy), example_app)
   \<and> example_legacy \<noteq> JObj [(''y'', JNum 2)]"
  by (simp add: apiInterceptor_def example_external_request_def example_legacy_def startsWith_def)

text \<open>
  The legacy envelope behind a URL that the interceptor handles: when the API metadata
  service holds no metadata or a metadata object, the interceptor passes on the response
  with \<^verbatim>\<open>result\<close> as its body; and when it holds a metadata object, a \<^verbatim>\<open>session\<close> of the
  body that is not \<^verbatim>\<open>null\<close> is the session id afterwards.
\<close>

lemma apiInterceptor_legacy_with_metadata:
  assumes "\<not> startsWith (url request) ''/assets''"
      and "\<not> startsWith (url request) ''http://''"
      and "\<not> startsWith (url request) ''https://''"
      and "getProp body ''result'' = Some result"
      and "getProp body ''status'' = Some status"
  shows "(apiMetadata app = None \<or> (\<exists>props. apiMetadata app = Some (JObj props)) \<longrightarrow>
            fst (apiInterceptor request (HttpResponse body) app) = Inr (HttpResponse result))
       \<and> (\<forall>props sid. apiMetadata app = Some (JObj props) \<and> getProp body ''session'' = Some sid \<and> sid \<noteq> JNull \<longrightarrow>
            getSessionId (apiMetadata (snd (apiInterceptor request (HttpResponse body) app))) = Some sid)"
proof -
  have tb: "truthy body" using assms(4) by (rule getProp_Some_truthy)
  have unfolded: "apiInterceptor request (HttpResponse body) app =
      (case setSessionId (getProp body ''session'') (apiMetadata app) of
         Inl e \<Rightarrow> (Inl e, app)
       | Inr md \<Rightarrow>
           (Inr (HttpResponse result),
            (case getProp body ''message'' of
               Some (JStr m) \<Rightarrow>
                 if m \<noteq> [] \<and> \<not> headers_has request ''X-Suppress-Error-Toast''
                 then app\<lparr>apiMetadata := md, messages := showInfo (JStr m) (messages app)\<rparr>
                 else app\<lparr>apiMetadata := md\<rparr>
             | _ \<Rightarrow> app\<lparr>apiMetadata := md\<rparr>)))"
    using assms(1-3) tb
    by (simp add: apiInterceptor_def Let_def assms(4,5) split: sum.splits option.splits json.splits)
  have meta_kept: "apiMetadata (case getProp body ''message'' of
               Some (JStr m) \<Rightarrow>
                 if m \<noteq> [] \<and> \<not> headers_has request ''X-Suppress-Error-Toast''
                 then app\<lparr>apiMetadata := md, messages := showInfo (JStr m) (messages app)\<rparr>
                 else app\<lparr>apiMetadata := md\<rparr>
             | _ \<Rightarrow> app\<lparr>apiMetadata := md\<rparr>) = md" for md
    by (simp split: option.splits json.splits)
  show ?thesis
  proof (intro conjI impI allI)
    assume "apiMetadata app = None \<or> (\<exists>props. apiMetadata app = Some (JObj props))"
    then show "fst (apiInterceptor request (HttpResponse body) app) = Inr (HttpResponse result)"
      unfolding unfolded by (auto simp: setSessionId_def)
  next
    fix props sid
    assume h: "apiMetadata app = Some (JObj props) \<and> getProp body ''session'' = Some sid \<and> sid \<noteq> JNull"
    then have "setSessionId (getProp body ''session'') (apiMetadata app)
                 = Inr (Some (JObj (AList.update ''session'' sid props)))"
      by (simp add: setSessionId_def)
    then have "apiMetadata (snd (apiInterceptor request (HttpResponse body) app))
                 = Some (JObj (AList.update ''session'' sid props))"
      unfolding unfolded by (simp add: meta_kept)
    then show "getSessionId (apiMetadata (snd (apiInterceptor request (HttpResponse body) app))) = Some sid"
      using h by (cases sid) (simp_all add: getSessionId_def update_conv')
  qed
qed

lemma apiInterceptor_legacy_with_metadata_example:
  "fst (apiInterceptor example_request (HttpResponse example_legacy) example_app_with_meta)
     = Inr (HttpResponse (JObj [(''y'', JNum 2)]))
   \<and> getSessionId (apiMetadata (snd (apiInterceptor example_request (HttpResponse example_legacy) example_app_with_meta)))
       = Some (JStr ''abc'')
   \<and> fst (apiInterceptor example_request (HttpResponse example_legacy) example_app)
       = Inr (HttpResponse (JObj [(''y'', JNum 2)]))"
proof -
  have u: "\<not> startsWith (url example_request) ''/assets''"
          "\<not> startsWith (url example_request) ''http://''"
          "\<not> startsWith (url example_request) ''https://''"
    by (simp_all add: example_request_def startsWith_def)
  have b: "getProp example_legacy ''result'' = Some (JObj [(''y'', JNum 2)])"
          "getProp example_legacy ''status'' = Some (JNum 1)"
    by (simp_all add: example_legacy_def)
  note with_meta = apiInterceptor_legacy_with_metadata [OF u b, of example_app_with_meta]
  note without = apiInterceptor_legacy_with_metadata [OF u b, of example_app]
  from with_meta without show ?thesis
    by (simp add: example_app_with_meta_def example_app_def example_legacy_def)
qed

text \<open>
  C6. For every response to a request whose URL the interceptor handles and whose body
  has both \<^verbatim>\<open>status\<close> and \<^verbatim>\<open>result\<close>, received while the API metadata service holds no
  metadata (as it does until a \<^verbatim>\<open>{meta, data}\<close> response has arrived): the interceptor
  passes on the response with \<^verbatim>\<open>result\<close> as its body, but \<^verbatim>\<open>setSessionId\<close> does
  nothing, the service still holds no metadata afterwards, and the session id is
  \<^verbatim>\<open>null\<close>, whatever \<^verbatim>\<open>session\<close> the body carries.
\<close>

theorem apiInterceptor_legacy_session_dropped:
  assumes "\<not> startsWith (url request) ''/assets''"
      and "\<not> startsWith (url request) ''http://''"
      and "\<not> startsWith (url request) ''https://''"
      and "getProp body ''result'' = Some result"
      and "getProp body ''status'' = Some status"
      and "apiMetadata app = None"
  shows "fst (apiInterceptor request (HttpResponse body) app) = Inr (HttpResponse result)
       \<and> apiMetadata (snd (apiInterceptor request (HttpResponse body) app)) = None
       \<and> getSessionId (apiMetadata (snd (apiInterceptor request (HttpResponse body) app))) = None"
proof -
  have tb: "truthy body" using assms(4) by (rule getProp_Some_truthy)
  show ?thesis
    using assms(1-3) tb
    by (simp add: apiInterceptor_def Let_def assms(4,5,6) setSessionId_def getSessionId_def
          split: option.splits json.splits)
qed

theorem apiInterceptor_legacy_session_dropped_witness:
  "apiMetadata example_app = None
   \<and> getProp example_legacy ''session'' = Some (JStr ''abc'')
   \<and> fst (apiInterceptor example_request (HttpResponse example_legacy) example_app)
       = Inr (HttpResponse (JObj [(''y'', JNum 2)]))
   \<and> apiMetadata (snd (apiInterceptor example_request (HttpResponse example_legacy) example_app)) = None
   \<and> getSessionId (apiMetadata (snd (apiInterceptor example_request (HttpResponse example_legacy) example_app)))
       = None
   \<and> getSessionId (apiMetadata (snd (apiInterceptor example_request
         (HttpResponse (JObj [(''meta'', JObj [(''session'', JStr ''abc'')]), (''data'', JObj [(''y'', JNum 2)])]))
         example_app)))
       = Some (JStr ''abc'')"
proof -
  have u: "\<not> startsWith (url example_request) ''/assets''"
          "\<not> startsWith (url example_request) ''http://''"
          "\<not> startsWith (url example_request) ''https://''"
    by (simp_all add: example_request_def startsWith_def)
  have b: "getProp example_legacy ''result'' = Some (JObj [(''y'', JNum 2)])"
          "getProp example_legacy ''status'' = Some (JNum 1)"
    by (simp_all add: example_legacy_def)
  have m: "apiMetadata example_app = None"
    by (simp add: example_app_def)
  have sibling: "getSessionId (apiMetadata (snd (apiInterceptor example_request
         (HttpResponse (JObj [(''meta'', JObj [(''session'', JStr ''abc'')]), (''data'', JObj [(''y'', JNum 2)])]))
         example_app)))
       = Some (JStr ''abc'')"
    by (simp add: apiInterceptor_def example_request_def example_app_def startsWith_def
          headers_has_def setApiMetadata_def getSessionId_def)
  have session: "getProp example_legacy ''session'' = Some (JStr ''abc'')"
    by (simp add: example_legacy_def)
  from apiInterceptor_legacy_session_dropped [OF u b m] m session sibling show ?thesis
    by blast
qed

section \<open>Preferences and browser storage\<close>

lemma storageSize_update_new:
  "k \<notin> fst ` set kvs \<Longrightarrow> storageSize (AList.update k v kvs) = storageSize kvs + length k + length v"
  by (induction kvs) (auto simp: storageSize_def)

lemma getStorage_local:
  "accessible (localStorage b) \<Longrightarrow> getStorage (Value LOCAL) b = Inr (localStorage b)"
  by (simp add: getStorage_def)

lemma local_options:
  "mergeOptions (Some \<lparr> type' = Value LOCAL, prefix = Undefined \<rparr>)
     = \<lparr> type' = Value LOCAL, prefix = Undefined \<rparr>"
  by (simp add: mergeOptions_def defaultOptions_def spread_def)

lemma removeLocal_accessible:
  "accessible (localStorage b) \<Longrightarrow>
     removeLocal key b = (True, b\<lparr>localStorage := (localStorage b)\<lparr>items := AList.delete key (items (localStorage b))\<rparr>\<rparr>)"
  by (simp add: removeLocal_def removeItem_def local_options getStorage_local getPrefixedKey_def
        putStorage_def Storage_removeItem_def)

lemma setLocal_fits:
  assumes "accessible (localStorage b)"
      and "serialized = (case v of JStr s \<Rightarrow> s | _ \<Rightarrow> JSON_stringify v)"
      and "storageSize (AList.update key serialized (items (localStorage b))) \<le> quota (localStorage b)"
  shows "setLocal key v b
           = (True, b\<lparr>localStorage := (localStorage b)\<lparr>items := AList.update key serialized (items (localStorage b))\<rparr>\<rparr>)"
  using assms
  by (simp add: setLocal_def setItem_def local_options getStorage_local getPrefixedKey_def
        putStorage_def Storage_setItem_def Let_def)

lemma keys_differ: "VERSION_KEY \<noteq> LOCAL_STORAGE_KEY"
  by (simp add: VERSION_KEY_def LOCAL_STORAGE_KEY_def)

text \<open>
  C7. Let the version that the constructor reads from local storage (\<^verbatim>\<open>null\<close> when there
  is none) differ from the current version, the text of \<^verbatim>\<open>PREFERENCES_VERSION\<close>, and let
  local storage be reachable with room for the entries written. Then the constructor
  removes the stored preferences, sets the version entry to the current version, saves
  the default preferences, and the current value of the preferences is the defaults:
  nothing of the stored preferences is left.
\<close>

theorem preferences_version_mismatch_resets:
  assumes "getLocal VERSION_KEY b \<noteq> JStr (decimal PREFERENCES_VERSION)"
      and "accessible (localStorage b)"
      and "finalItems =
             AList.update LOCAL_STORAGE_KEY (JSON_stringify (JObj defaultPreferences))
               (AList.update VERSION_KEY (decimal PREFERENCES_VERSION)
                  (AList.delete LOCAL_STORAGE_KEY (items (localStorage b))))"
      and "storageSize finalItems \<le> quota (localStorage b)"
  shows "PreferencesService_new b
           = Inr (\<lparr> preferencesSubject = defaultPreferences \<rparr>,
                  b\<lparr>localStorage := (localStorage b)\<lparr>items := finalItems\<rparr>\<rparr>)
       \<and> map_of finalItems LOCAL_STORAGE_KEY = Some (JSON_stringify (JObj defaultPreferences))
       \<and> map_of finalItems VERSION_KEY = Some (decimal PREFERENCES_VERSION)"
proof -
  define st where "st = localStorage b"
  define items1 where "items1 = AList.delete LOCAL_STORAGE_KEY (items st)"
  define items2 where "items2 = AList.update VERSION_KEY (decimal PREFERENCES_VERSION) items1"
  define b1 where "b1 = b\<lparr>localStorage := st\<lparr>items := items1\<rparr>\<rparr>"
  define b2 where "b2 = b\<lparr>localStorage := st\<lparr>items := items2\<rparr>\<rparr>"
  have final: "finalItems = AList.update LOCAL_STORAGE_KEY (JSON_stringify (JObj defaultPreferences)) items2"
    by (simp add: assms(3) items2_def items1_def st_def)
  have fresh: "LOCAL_STORAGE_KEY \<notin> fst ` set items2"
    using keys_differ delete_notin_dom [of LOCAL_STORAGE_KEY "items st"]
    by (auto simp: items2_def items1_def dom_update)
  have size2: "storageSize items2 \<le> quota st"
    using assms(4) fresh by (simp add: final storageSize_update_new st_def)
  have removed: "removeLocal LOCAL_STORAGE_KEY b = (True, b1)"
    using assms(2) by (simp add: removeLocal_accessible b1_def st_def items1_def)
  have versionSet: "setLocal VERSION_KEY (JStr (decimal PREFERENCES_VERSION)) b1 = (True, b2)"
    using assms(2) size2
    by (simp add: setLocal_fits [where serialized = "decimal PREFERENCES_VERSION"] b1_def b2_def items2_def st_def)
  have saved: "setLocal LOCAL_STORAGE_KEY (JObj defaultPreferences) b2
                 = (True, b\<lparr>localStorage := st\<lparr>items := finalItems\<rparr>\<rparr>)"
    using assms(2,4)
    by (simp add: setLocal_fits [where serialized = "JSON_stringify (JObj defaultPreferences)"] b2_def final st_def)
  have "PreferencesService_new b
           = Inr (\<lparr> preferencesSubject = defaultPreferences \<rparr>, b\<lparr>localStorage := st\<lparr>items := finalItems\<rparr>\<rparr>)"
    using assms(1) by (simp add: PreferencesService_new_def Let_def removed versionSet savePreferences_def saved)
  moreover have "map_of finalItems LOCAL_STORAGE_KEY = Some (JSON_stringify (JObj defaultPreferences))"
    by (simp add: final update_conv')
  moreover have "map_of finalItems VERSION_KEY = Some (decimal PREFERENCES_VERSION)"
    using keys_differ by (simp add: final items2_def update_conv')
  ultimately show ?thesis by (simp add: st_def)
qed

theorem preferences_version_mismatch_resets_witness:
  "getLocal VERSION_KEY example_old_browser = JNum 1
   \<and> getLocal LOCAL_STORAGE_KEY example_old_browser = JObj [(''language'', JStr ''de'')]
   \<and> PreferencesService_new example_old_browser
       = Inr (\<lparr> preferencesSubject = defaultPreferences \<rparr>,
              example_old_browser\<lparr>localStorage := (localStorage example_old_browser)
                \<lparr>items := [(''preferences-version'', ''2''),
                            (''user-preferences'', JSON_stringify (JObj defaultPreferences))]\<rparr>\<rparr>)"
proof -
  have read: "getLocal VERSION_KEY example_old_browser = JNum 1"
    by code_simp
  have stored: "getLocal LOCAL_STORAGE_KEY example_old_browser = JObj [(''language'', JStr ''de'')]"
    by code_simp
  have mismatch: "getLocal VERSION_KEY example_old_browser \<noteq> JStr (decimal PREFERENCES_VERSION)"
    unfolding read by simp
  have access: "accessible (localStorage example_old_browser)"
    by (simp add: example_old_browser_def)
  have final: "AList.update LOCAL_STORAGE_KEY (JSON_stringify (JObj defaultPreferences))
               (AList.update VERSION_KEY (decimal PREFERENCES_VERSION)
                  (AList.delete LOCAL_STORAGE_KEY (items (localStorage example_old_browser))))
             = [(''preferences-version'', ''2''),
                (''user-preferences'', JSON_stringify (JObj defaultPreferences))]"
  proof -
    have d: "decimal PREFERENCES_VERSION = ''2''" by code_simp
    show ?thesis
      by (simp add: example_old_browser_def LOCAL_STORAGE_KEY_def VERSION_KEY_def d
            del: JSON_stringify.simps)
  qed
  have fits: "storageSize [(''preferences-version'', ''2''),
                (''user-preferences'', JSON_stringify (JObj defaultPreferences))]
               \<le> quota (localStorage example_old_browser)"
    by code_simp
  from preferences_version_mismatch_resets [OF mismatch access final [symmetric] fits] read stored
  show ?thesis by simp
qed

text \<open>
  C9 at the input the preferences service itself stores: the version \<^verbatim>\<open>"2"\<close>, a string,
  is stored as the text \<^verbatim>\<open>2\<close> and read back as the number 2.
\<close>

theorem storage_roundtrip_numeric_string:
  "setItem VERSION_KEY (JStr ''2'') None example_browser
     = (True, example_browser\<lparr>localStorage := example_storage\<lparr>items := [(''preferences-version'', ''2'')]\<rparr>\<rparr>)
   \<and> getItem VERSION_KEY None (snd (setItem VERSION_KEY (JStr ''2'') None example_browser)) = JNum 2
   \<and> JNum 2 \<noteq> JStr ''2''"
  by code_simp

text \<open>
  What follows for the preferences: a service constructed on the storage that an earlier
  construction and a change of the language left behind reads the version as the number
  2, takes it for a changed version and resets the preferences.
\<close>

lemma preferences_reset_on_every_load:
  "(case PreferencesService_new example_browser of
      Inl e \<Rightarrow> False
    | Inr sb \<Rightarrow>
        map_of (getPreferences (fst (updatePreference ''language'' (JStr ''de'') sb))) ''language''
          = Some (JStr ''de'')
        \<and> getLocal VERSION_KEY (snd (updatePreference ''language'' (JStr ''de'') sb)) = JNum 2
        \<and> (case PreferencesService_new (snd (updatePreference ''language'' (JStr ''de'') sb)) of
              Inl e \<Rightarrow> False
            | Inr sb' \<Rightarrow> getPreferences (fst sb') = defaultPreferences))"
  by code_simp

section \<open>Reading back what was stored\<close>

text \<open>
  \<^verbatim>\<open>JSON.parse\<close> reads every value back from the text \<^verbatim>\<open>JSON.stringify\<close> gives for it:
  numbers first, then strings with their escapes, then arrays and objects.
\<close>

lemma of_char_zero: "(of_char (CHR ''0'') :: nat) = 48"
  by simp

lemma of_char_quote: "(of_char (CHR 0x22) :: nat) = 34"
  by simp

lemma char_zero_iff: "(c = CHR ''0'') = ((of_char c :: nat) = 48)"
  by (metis of_char_zero of_char_eq_iff)

lemma char_of_digit_zero: "n < 10 \<Longrightarrow> (char_of (48 + n :: nat) = CHR ''0'') = (n = 0)"
  by (simp add: char_zero_iff)

lemma isDigit_char_of: "d < 10 \<Longrightarrow> isDigit (char_of (48 + d :: nat))"
  by (simp add: isDigit_def)

lemma digits_all: "list_all isDigit (digits n)"
proof (induction n rule: digits.induct)
  case (1 n)
  then show ?case by (subst digits.simps) (simp add: isDigit_char_of del: digits.simps)
qed

lemma digits_nonempty: "digits n \<noteq> []"
  by (subst digits.simps) (simp del: digits.simps)

lemma parseDigits_append:
  "list_all isDigit ds \<Longrightarrow>
     parseDigits acc (ds @ rest) = parseDigits (foldl (\<lambda>a c. 10 * a + ((of_char c :: nat) - 48)) acc ds) rest"
  by (induction ds arbitrary: acc) simp_all

lemma foldl_digits:
  "foldl (\<lambda>a c. 10 * a + ((of_char c :: nat) - 48)) acc (digits n) = acc * 10 ^ length (digits n) + n"
proof (induction n arbitrary: acc rule: digits.induct)
  case (1 n)
  show ?case
  proof (cases "n < 10")
    case True
    then show ?thesis by (subst (1 2) digits.simps) (simp del: digits.simps)
  next
    case False
    have m: "(48 + n mod 10) mod 256 - 48 = n mod 10" by simp
    have "foldl (\<lambda>a c. 10 * a + ((of_char c :: nat) - 48)) acc (digits n)
        = 10 * (acc * 10 ^ length (digits (n div 10)) + n div 10) + n mod 10"
      using False "1.IH" [of acc] by (subst digits.simps) (simp add: m del: digits.simps)
    also have "\<dots> = acc * 10 ^ length (digits n) + n"
      using False by (subst (2) digits.simps) (simp add: algebra_simps del: digits.simps)
    finally show ?thesis .
  qed
qed

lemma parseDigits_stop: "numberEnd rest \<Longrightarrow> parseDigits acc rest = (acc, rest)"
  by (cases rest) (simp_all add: numberEnd_def)

lemma parseDigits_digits: "numberEnd rest \<Longrightarrow> parseDigits 0 (digits n @ rest) = (n, rest)"
  by (simp add: parseDigits_append digits_all foldl_digits parseDigits_stop del: digits.simps)

lemma hd_digits_zero: "hd (digits n) = CHR ''0'' \<longleftrightarrow> n = 0"
proof (induction n rule: digits.induct)
  case (1 n)
  show ?case
  proof (cases "n < 10")
    case True
    then show ?thesis by (subst digits.simps) (simp add: char_zero_iff del: digits.simps)
  next
    case False
    then have "hd (digits n) = hd (digits (n div 10))"
      by (subst digits.simps) (simp add: digits_nonempty del: digits.simps)
    then show ?thesis using False "1.IH" by auto
  qed
qed

lemma hd_digits_isDigit: "isDigit (hd (digits n))"
  using digits_all [of n] digits_nonempty [of n] by (cases "digits n") simp_all

lemma parseNumber_decimal:
  assumes "numberEnd rest"
  shows "parseNumber (decimal i @ rest) = Some (JNum i, rest)"
proof -
  obtain d ds where ds: "digits (nat \<bar>i\<bar>) = d # ds"
    using digits_nonempty [of "nat \<bar>i\<bar>"] by (cases "digits (nat \<bar>i\<bar>)") auto
  have dig: "isDigit d" using hd_digits_isDigit [of "nat \<bar>i\<bar>"] ds by simp
  have notminus: "d \<noteq> CHR ''-''" using dig by (auto simp: isDigit_def)
  have zero: "d = CHR ''0'' \<longleftrightarrow> i = 0" using hd_digits_zero [of "nat \<bar>i\<bar>"] ds by simp
  have pd: "parseDigits 0 (d # ds @ rest) = (nat \<bar>i\<bar>, rest)"
    using parseDigits_digits [OF assms, of "nat \<bar>i\<bar>"] ds by simp
  have z: "i = 0 \<Longrightarrow> ds = []"
    using ds by (subst (asm) digits.simps) (simp del: digits.simps)
  show ?thesis
  proof (cases "i < 0")
    case True
    then have dec: "decimal i = CHR ''-'' # d # ds"
      using ds by (simp add: decimal_def abs_if del: digits.simps)
    show ?thesis
      using True assms dig zero pd
      by (auto simp: dec parseNumber_def Let_def numberEnd_def split: list.splits simp del: digits.simps parseDigits.simps)
  next
    case False
    then have dec: "decimal i = d # ds"
      using ds by (simp add: decimal_def abs_if del: digits.simps)
    show ?thesis
      using False assms dig zero pd z notminus
      by (auto simp: dec parseNumber_def Let_def numberEnd_def split: list.splits simp del: digits.simps parseDigits.simps)
  qed
qed

lemma hexValue_hexDigit: "k < 16 \<Longrightarrow> hexValue (hexDigit k) = Some k"
  by (auto simp: hexValue_def hexDigit_def Let_def)

lemma char_code_eq: "(c = d) = ((of_char c :: nat) = of_char d)"
  by simp

lemma char_of_eq_code: "(char_of (n :: nat) = d) = (n mod 256 = (of_char d :: nat))"
  by (metis char_of_char char_of_mod_256 of_char_of)

lemma code_eq_char_of: "(d = char_of (n :: nat)) = ((of_char d :: nat) = n mod 256)"
  by (metis char_of_char char_of_mod_256 of_char_of)

lemma parse_escaped_char:
  assumes "parseStringBody tail = Some (str, rest)"
  shows "parseStringBody (escapeChar c @ tail) = Some (c # str, rest)"
proof -
  define n where "n = (of_char c :: nat)"
  have c: "c = char_of n" by (simp add: n_def)
  have n256: "n < 256" by (simp add: n_def)
  consider "n = 34" | "n = 92" | "n = 8" | "n = 12" | "n = 10" | "n = 13" | "n = 9"
    | "n < 32" "n \<noteq> 8" "n \<noteq> 12" "n \<noteq> 10" "n \<noteq> 13" "n \<noteq> 9"
    | "32 \<le> n" "n \<noteq> 34" "n \<noteq> 92"
    by linarith
  then show ?thesis
  proof cases
    case 8
    have d1: "n div 16 < 16" and d2: "n mod 16 < 16" using 8 by simp_all
    have restored: "char_of (16 * (n div 16) + n mod 16) = c" by (simp add: n_def)
    have esc: "escapeChar c = [CHR 0x5C, CHR ''u'', CHR ''0'', CHR ''0'', hexDigit (n div 16), hexDigit (n mod 16)]"
      using 8 by (simp add: escapeChar_def char_code_eq [of c] flip: n_def)
    have h0: "hexValue CHR ''0'' = Some 0" by (simp add: hexValue_def)
    show ?thesis
      by (simp add: esc assms hexValue_hexDigit [OF d1] hexValue_hexDigit [OF d2] h0)
         (simp add: n_def)
  next
    case 9
    have esc: "escapeChar c = [c]"
      using 9 by (simp add: escapeChar_def char_code_eq [of c] flip: n_def)
    show ?thesis
      using 9 by (simp add: esc assms char_code_eq [of c] flip: n_def)
  qed (simp_all add: c escapeChar_def unescape_def assms char_of_eq_code code_eq_char_of)
qed

lemma parseStringBody_escaped:
  "parseStringBody (concat (map escapeChar s) @ CHR 0x22 # rest) = Some (s, rest)"
  by (induction s) (simp_all add: parse_escaped_char del: parseStringBody.simps(2), simp)

lemma skipWhitespace_cons: "\<not> isWhitespace c \<Longrightarrow> skipWhitespace (c # cs) = c # cs"
  by (simp add: skipWhitespace_def)

lemma numberEnd_cons:
  "numberEnd (CHR '','' # r)" "numberEnd (CHR '']'' # r)" "numberEnd (CHR ''}'' # r)" "numberEnd []"
  by (simp_all add: numberEnd_def isDigit_def)

lemma decimal_cons: "\<exists>c cs. decimal i = c # cs \<and> (c = CHR ''-'' \<or> isDigit c)"
proof -
  obtain d ds where ds: "digits (nat \<bar>i\<bar>) = d # ds"
    using digits_nonempty [of "nat \<bar>i\<bar>"] by (cases "digits (nat \<bar>i\<bar>)") auto
  have "isDigit d" using hd_digits_isDigit [of "nat \<bar>i\<bar>"] ds by simp
  then show ?thesis using ds by (auto simp: decimal_def abs_if simp del: digits.simps)
qed

lemma roundtrips_atoms:
  "roundtrips JNull" "roundtrips (JBool b)" "roundtrips (JNum i)" "roundtrips (JStr s)"
proof -
  show "roundtrips JNull"
    unfolding roundtrips_def
  proof (intro allI impI)
    fix n rest assume "need JNull \<le> n"
    then obtain m where "n = Suc m" by (cases n) auto
    then show "parseValue n (JSON_stringify JNull @ rest) = Some (JNull, rest)"
      by (simp add: skipWhitespace_cons isWhitespace_def startsWith_def)
  qed
  show "roundtrips (JBool b)"
    unfolding roundtrips_def
  proof (intro allI impI)
    fix n rest assume "need (JBool b) \<le> n"
    then obtain m where "n = Suc m" by (cases n) auto
    then show "parseValue n (JSON_stringify (JBool b) @ rest) = Some (JBool b, rest)"
      by (cases b) (simp_all add: skipWhitespace_cons isWhitespace_def startsWith_def)
  qed
  show "roundtrips (JNum i)"
    unfolding roundtrips_def
  proof (intro allI impI)
    fix n rest assume "need (JNum i) \<le> n" and e: "numberEnd rest"
    then obtain m where n: "n = Suc m" by (cases n) auto
    obtain c cs where d: "decimal i = c # cs" and c: "c = CHR ''-'' \<or> isDigit c"
      using decimal_cons by blast
    have ws: "\<not> isWhitespace c" using c by (auto simp: isWhitespace_def isDigit_def)
    have other: "c \<noteq> CHR ''n''" "c \<noteq> CHR ''t''" "c \<noteq> CHR ''f''" "c \<noteq> CHR 0x22" "c \<noteq> CHR ''[''" "c \<noteq> CHR ''{''"
      using c by (auto simp: isDigit_def)
    have "parseValue n (c # cs @ rest) = parseNumber (c # cs @ rest)"
      using other by (simp add: n skipWhitespace_cons [OF ws])
    also have "\<dots> = Some (JNum i, rest)"
      using parseNumber_decimal [OF e, of i] by (simp add: d)
    finally show "parseValue n (JSON_stringify (JNum i) @ rest) = Some (JNum i, rest)"
      by (simp add: d)
  qed
  show "roundtrips (JStr s)"
    unfolding roundtrips_def
  proof (intro allI impI)
    fix n rest assume "need (JStr s) \<le> n"
    then obtain m where "n = Suc m" by (cases n) auto
    then show "parseValue n (JSON_stringify (JStr s) @ rest) = Some (JStr s, rest)"
      by (simp add: quoteJSONString_def skipWhitespace_cons isWhitespace_def parseStringBody_escaped
            del: parseStringBody.simps)
  qed
qed

text \<open>The first character of a JSON text is neither white space nor a closing bracket.\<close>

lemma stringify_cons:
  "\<exists>c cs. JSON_stringify v = c # cs \<and> \<not> isWhitespace c \<and> c \<noteq> CHR '']'' \<and> c \<noteq> CHR ''}''"
proof (cases v)
  case (JNum i)
  obtain c cs where "decimal i = c # cs" "c = CHR ''-'' \<or> isDigit c"
    using decimal_cons by blast
  then show ?thesis using JNum by (auto simp: isWhitespace_def isDigit_def)
qed (auto simp: isWhitespace_def quoteJSONString_def)

lemma parseElements_roundtrip:
  assumes "\<forall>x \<in> set xs. roundtrips x" and "xs \<noteq> []"
      and "sum_list (map (\<lambda>x. Suc (need x)) xs) \<le> n"
  shows "parseElements n (joinWith '','' (map JSON_stringify xs) @ CHR '']'' # rest) = Some (xs, rest)"
  using assms
proof (induction xs arbitrary: n)
  case Nil
  then show ?case by simp
next
  case (Cons x xs)
  from Cons.prems(3) obtain m where n: "n = Suc m" and m: "need x + sum_list (map (\<lambda>x. Suc (need x)) xs) \<le> m"
    by (cases n) auto
  have rx: "roundtrips x" using Cons.prems(1) by simp
  show ?case
  proof (cases xs)
    case Nil
    have "parseValue m (JSON_stringify x @ CHR '']'' # rest) = Some (x, CHR '']'' # rest)"
      using rx m by (simp add: roundtrips_def numberEnd_cons)
    then show ?thesis
      by (simp add: Nil n skipWhitespace_cons isWhitespace_def)
  next
    case (Cons y ys)
    let ?tail = "joinWith '','' (map JSON_stringify xs) @ CHR '']'' # rest"
    have "parseValue m (JSON_stringify x @ CHR '','' # ?tail) = Some (x, CHR '','' # ?tail)"
      using rx m by (simp add: roundtrips_def numberEnd_cons)
    moreover have "parseElements m ?tail = Some (xs, rest)"
      using Cons.IH [of m] Cons.prems(1) m Cons by simp
    ultimately show ?thesis
      unfolding n
      by (subst parseElements.simps(2))
         (simp add: Cons skipWhitespace_cons isWhitespace_def del: parseElements.simps parseValue.simps)
  qed
qed

lemma parseMembers_roundtrip:
  assumes "\<forall>kv \<in> set kvs. roundtrips (snd kv)" and "kvs \<noteq> []"
      and "sum_list (map (\<lambda>kv. Suc (need (snd kv))) kvs) \<le> n"
  shows "parseMembers n
           (joinWith '','' (map (\<lambda>kv. quoteJSONString (fst kv) @ '':'' @ JSON_stringify (snd kv)) kvs)
              @ CHR ''}'' # rest)
         = Some (kvs, rest)"
  using assms
proof (induction kvs arbitrary: n)
  case Nil
  then show ?case by simp
next
  case (Cons kv kvs)
  obtain k v where kv: "kv = (k, v)" by (cases kv)
  from Cons.prems(3) obtain m where n: "n = Suc m"
      and m: "need v + sum_list (map (\<lambda>kv. Suc (need (snd kv))) kvs) \<le> m"
    by (cases n) (auto simp: kv)
  have rv: "roundtrips v" using Cons.prems(1) by (simp add: kv)
  have key: "parseStringBody (concat (map escapeChar k) @ CHR 0x22 # tail) = Some (k, tail)" for tail
    by (rule parseStringBody_escaped)
  show ?case
  proof (cases kvs)
    case Nil
    have "parseValue m (JSON_stringify v @ CHR ''}'' # rest) = Some (v, CHR ''}'' # rest)"
      using rv m by (simp add: roundtrips_def numberEnd_cons)
    then show ?thesis
      unfolding n
      by (subst parseMembers.simps(2))
         (simp add: Nil kv quoteJSONString_def key skipWhitespace_cons isWhitespace_def
            del: parseMembers.simps parseValue.simps parseStringBody.simps)
  next
    case (Cons kv' kvs')
    let ?tail = "joinWith '','' (map (\<lambda>kv. quoteJSONString (fst kv) @ '':'' @ JSON_stringify (snd kv)) kvs)
                   @ CHR ''}'' # rest"
    have "parseValue m (JSON_stringify v @ CHR '','' # ?tail) = Some (v, CHR '','' # ?tail)"
      using rv m by (simp add: roundtrips_def numberEnd_cons)
    moreover have "parseMembers m ?tail = Some (kvs, rest)"
      using Cons.IH [of m] Cons.prems(1) m Cons by simp
    ultimately show ?thesis
      unfolding n
      by (subst parseMembers.simps(2))
         (simp add: Cons kv quoteJSONString_def key skipWhitespace_cons isWhitespace_def
            del: parseMembers.simps parseValue.simps parseStringBody.simps)
  qed
qed

lemma update_fresh: "k \<notin> fst ` set al \<Longrightarrow> AList.update k v al = al @ [(k, v)]"
  by (induction al) auto

lemma foldl_update_distinct:
  "distinct (map fst (acc @ kvs)) \<Longrightarrow>
     foldl (\<lambda>ob kv. AList.update (fst kv) (snd kv) ob) acc kvs = acc @ kvs"
proof (induction kvs arbitrary: acc)
  case Nil
  then show ?case by simp
next
  case (Cons kv kvs)
  have fresh: "fst kv \<notin> fst ` set acc" using Cons.prems by auto
  have "distinct (map fst ((acc @ [kv]) @ kvs))" using Cons.prems by simp
  from Cons.IH [OF this] show ?case
    by (simp add: update_fresh [OF fresh])
qed

lemma parseValue_stringify:
  "distinctKeys v \<Longrightarrow> roundtrips v"
proof (induction v)
  case (JArr xs)
  show ?case
    unfolding roundtrips_def
  proof (intro allI impI)
    fix n rest assume need: "need (JArr xs) \<le> n"
    then obtain m where n: "n = Suc m" and m: "sum_list (map (\<lambda>x. Suc (need x)) xs) \<le> m"
      by (cases n) auto
    show "parseValue n (JSON_stringify (JArr xs) @ rest) = Some (JArr xs, rest)"
    proof (cases xs)
      case Nil
      then show ?thesis by (simp add: n skipWhitespace_cons isWhitespace_def)
    next
      case (Cons y ys)
      have all: "\<forall>x \<in> set xs. roundtrips x"
        using JArr.IH JArr.prems by (auto simp: list_all_iff)
      have elems: "parseElements m (joinWith '','' (map JSON_stringify xs) @ CHR '']'' # rest) = Some (xs, rest)"
        using parseElements_roundtrip [OF all _ m] Cons by simp
      obtain c cs where first: "JSON_stringify y = c # cs" and ws: "\<not> isWhitespace c" and nb: "c \<noteq> CHR '']''"
        using stringify_cons [of y] by blast
      have open_text: "joinWith '','' (map JSON_stringify xs) @ CHR '']'' # rest
                  = c # (tl (joinWith '','' (map JSON_stringify xs)) @ CHR '']'' # rest)"
        using first Cons by (cases ys) simp_all
      have sw: "skipWhitespace (joinWith '','' (map JSON_stringify xs) @ CHR '']'' # rest)
                  = c # (tl (joinWith '','' (map JSON_stringify xs)) @ CHR '']'' # rest)"
        by (subst open_text) (rule skipWhitespace_cons [OF ws])
      show ?thesis
        unfolding n
        by (simp add: skipWhitespace_cons isWhitespace_def sw nb elems
              del: parseElements.simps parseMembers.simps)
    qed
  qed
next
  case (JObj kvs)
  show ?case
    unfolding roundtrips_def
  proof (intro allI impI)
    fix n rest assume need: "need (JObj kvs) \<le> n"
    then obtain m where n: "n = Suc m" and m: "sum_list (map (\<lambda>kv. Suc (need (snd kv))) kvs) \<le> m"
      by (cases n) auto
    have dist: "distinct (map fst kvs)" using JObj.prems by simp
    have same: "foldl (\<lambda>ob kv. AList.update (fst kv) (snd kv) ob) [] kvs = kvs"
      using foldl_update_distinct [of "[]" kvs] dist by simp
    show "parseValue n (JSON_stringify (JObj kvs) @ rest) = Some (JObj kvs, rest)"
    proof (cases kvs)
      case Nil
      then show ?thesis by (simp add: n skipWhitespace_cons isWhitespace_def)
    next
      case (Cons kv kvs')
      have all: "\<forall>kv \<in> set kvs. roundtrips (snd kv)"
      proof
        fix kv assume mem: "kv \<in> set kvs"
        then have "distinctKeys (snd kv)" using JObj.prems by (auto simp: list_all_iff)
        moreover have "snd kv \<in> Basic_BNFs.snds kv" by (cases kv) simp
        ultimately show "roundtrips (snd kv)" using JObj.IH mem by blast
      qed
      let ?text = "joinWith '','' (map (\<lambda>kv. quoteJSONString (fst kv) @ CHR '':'' # JSON_stringify (snd kv)) kvs)"
      have members: "parseMembers m (?text @ CHR ''}'' # rest) = Some (kvs, rest)"
        using parseMembers_roundtrip [OF all _ m, of rest] Cons by simp
      have open_text: "?text @ CHR ''}'' # rest = CHR 0x22 # (tl ?text @ CHR ''}'' # rest)"
        using Cons by (cases kvs') (simp_all add: quoteJSONString_def)
      have sw: "skipWhitespace (?text @ CHR ''}'' # rest) = CHR 0x22 # (tl ?text @ CHR ''}'' # rest)"
        by (subst open_text) (simp add: skipWhitespace_cons isWhitespace_def)
      show ?thesis
        unfolding n
        by (simp add: skipWhitespace_cons isWhitespace_def sw members same
              del: parseElements.simps parseMembers.simps)
    qed
  qed
qed (simp_all add: roundtrips_atoms)

lemma joinWith_length:
  "sum_list (map (\<lambda>x. Suc (length x)) xs) \<le> Suc (length (joinWith '','' xs))"
  by (induction "'',''" xs rule: joinWith.induct) simp_all

lemma need_le_length: "need v \<le> length (JSON_stringify v)"
proof (induction v)
  case (JArr xs)
  have "sum_list (map (\<lambda>x. Suc (need x)) xs)
          \<le> sum_list (map (\<lambda>x. Suc (length x)) (map JSON_stringify xs))"
    unfolding map_map comp_def
    by (rule sum_list_mono) (simp add: JArr.IH)
  also have "\<dots> \<le> Suc (length (joinWith '','' (map JSON_stringify xs)))"
    by (rule joinWith_length)
  finally show ?case by simp
next
  case (JObj kvs)
  let ?f = "\<lambda>kv. quoteJSONString (fst kv) @ '':'' @ JSON_stringify (snd kv)"
  have "sum_list (map (\<lambda>kv. Suc (need (snd kv))) kvs)
          \<le> sum_list (map (\<lambda>x. Suc (length x)) (map ?f kvs))"
    unfolding map_map comp_def
  proof (rule sum_list_mono)
    fix kv assume mem: "kv \<in> set kvs"
    have "snd kv \<in> Basic_BNFs.snds kv" by (cases kv) simp
    then have "need (snd kv) \<le> length (JSON_stringify (snd kv))"
      using JObj.IH mem by blast
    then show "Suc (need (snd kv)) \<le> Suc (length (?f kv))" by simp
  qed
  also have "\<dots> \<le> Suc (length (joinWith '','' (map ?f kvs)))"
    by (rule joinWith_length)
  finally show ?case by simp
next
  case (JNum i)
  obtain c cs where "decimal i = c # cs" using decimal_cons by blast
  then show ?case by simp
qed (simp_all add: quoteJSONString_def)

lemma JSON_parse_stringify:
  assumes "distinctKeys v"
  shows "JSON_parse (JSON_stringify v) = Some v"
proof -
  have "roundtrips v" using assms by (rule parseValue_stringify)
  moreover have "need v \<le> 2 * length (JSON_stringify v) + 2"
    using need_le_length [of v] by simp
  moreover have "numberEnd []" by (simp add: numberEnd_def)
  ultimately have "parseValue (2 * length (JSON_stringify v) + 2) (JSON_stringify v @ [])
                     = Some (v, [])"
    unfolding roundtrips_def by blast
  then show ?thesis by (simp add: JSON_parse_def skipWhitespace_def)
qed

lemma map_of_update_same: "map_of (AList.update k v al) k = Some v"
  by (simp add: update_conv')

text \<open>
  What \<^verbatim>\<open>getItem\<close> returns for an entry that \<^verbatim>\<open>setItem\<close> has just stored: the stored text
  parsed, and the text itself only when it is no JSON text. A value that is not a string
  is read back as it was stored; a string is read back as a string only when it does not parse.
\<close>

lemma setItem_getItem_text:
  assumes "setItem key v options b = (True, b')"
      and "serialized = (case v of JStr s \<Rightarrow> s | _ \<Rightarrow> JSON_stringify v)"
  shows "getItem key options b'
           = (case JSON_parse serialized of Some w \<Rightarrow> w | None \<Rightarrow> JStr serialized)"
proof (cases "type' (mergeOptions options)")
  case Absent
  then show ?thesis using assms(1) by (simp add: setItem_def getStorage_def Let_def)
next
  case Undefined
  then show ?thesis using assms(1) by (simp add: setItem_def getStorage_def Let_def)
next
  case (Value t)
  show ?thesis
  proof (cases t)
    case LOCAL
    then show ?thesis
      using assms Value
      by (auto simp: setItem_def getItem_def getStorage_def putStorage_def Let_def
            Storage_setItem_def Storage_getItem_def map_of_update_same
          split: if_splits sum.splits)
  next
    case SESSION
    then show ?thesis
      using assms Value
      by (auto simp: setItem_def getItem_def getStorage_def putStorage_def Let_def
            Storage_setItem_def Storage_getItem_def map_of_update_same
          split: if_splits sum.splits)
  qed
qed

lemma setItem_getItem_roundtrip:
  assumes "setItem key v options b = (True, b')"
      and "distinctKeys v" and "\<forall>s. v \<noteq> JStr s"
  shows "getItem key options b' = v"
proof -
  have "(case v of JStr s \<Rightarrow> s | _ \<Rightarrow> JSON_stringify v) = JSON_stringify v"
    using assms(3) by (cases v) simp_all
  from setItem_getItem_text [OF assms(1) this [symmetric]] JSON_parse_stringify [OF assms(2)]
  show ?thesis by simp
qed

end
